theory Spec2Isabelle
  imports Complex_Main "HOL-Library.AList"
begin

section \<open>Python values, exceptions and dictionaries\<close>

text \<open>
  The handlers of \<^verbatim>\<open>mitmproxy/tools/web/app.py\<close> exchange untyped Python values:
  JSON request bodies, the dictionaries returned by \<^verbatim>\<open>get_state()\<close>, and the
  projection built by \<^verbatim>\<open>flow_to_json\<close>. A \<^verbatim>\<open>str\<close> is modelled by its UTF-8
  bytes, so \<^verbatim>\<open>bytes(s, 'UTF-8')\<close> is the identity; tuples are modelled as lists;
  a dictionary is an association list in insertion order with string keys.
\<close>

datatype pyval =
    PyNone
  | PyBool bool
  | PyInt int
  | PyFloat real
  | PyStr string
  | PyBytes string
  | PyList "pyval list"
  | PyDict "(string \<times> pyval) list"

text \<open>
  Exceptions. \<open>APIError\<close> is the only exception class declared in the source; the
  next seven are Python's own; the last five are the spec's names. Four of them are the
  failures of the collaborators that are not part of the source files (view, rule sets,
  flow reader). No definition of this theory raises \<open>InvalidCaptureFormatError\<close>: the
  source has no such class, and the name is kept only to state what the spec expects.
\<close>

datatype exn =
    APIError nat string
  | KeyError
  | ValueError
  | IndexError
  | TypeError
  | AttributeError
  | SyntaxError
  | NameError
  | DuplicateNameError
  | NotFoundError
  | IndexOutOfRangeError
  | InvalidCaptureFormatError
  | CodecError

type_synonym 'v pydict = "(string \<times> 'v) list"

text \<open>\<^verbatim>\<open>d[k]\<close>: raises \<^verbatim>\<open>KeyError\<close> when the key is absent.\<close>

definition getitem :: "'v pydict \<Rightarrow> string \<Rightarrow> exn + 'v" where
  "getitem d k = (case map_of d k of None \<Rightarrow> Inl KeyError | Some v \<Rightarrow> Inr v)"

text \<open>\<^verbatim>\<open>f[conn].pop(k, None)\<close> on a dictionary stored under \<open>conn\<close> in \<open>f\<close>.\<close>

definition pop_in :: "string \<Rightarrow> string \<Rightarrow> pyval pydict \<Rightarrow> pyval pydict" where
  "pop_in conn k f =
     (case map_of f conn of
        Some (PyDict c) \<Rightarrow> AList.update conn (PyDict (AList.delete k c)) f
      | _ \<Rightarrow> f)"

section \<open>Flows\<close>

text \<open>
  The attributes of a flow that the handlers read or write. \<open>Message\<close> is the common
  base of requests and responses; \<open>http_method\<close> is \<^verbatim>\<open>request.method\<close>, and \<open>msg\<close> is the attribute that
  \<^verbatim>\<open>setattr(response, "msg", ...)\<close> creates in \<^verbatim>\<open>FlowHandler.put\<close>.
\<close>

record message =
  http_version :: string
  headers :: "(string \<times> string) list"
  raw_content :: "string option"
  timestamp_start :: "real option"
  timestamp_end :: "real option"
  is_replay :: bool

record request = message +
  http_method :: string
  scheme :: string
  host :: string
  port :: int
  path :: string

record response = message +
  status_code :: int
  reason :: string
  msg :: "string option"

text \<open>
  \<open>client_conn\<close> and \<open>server_conn\<close> hold the dictionaries that
  \<^verbatim>\<open>flow.client_conn.get_state()\<close> and \<^verbatim>\<open>flow.server_conn.get_state()\<close> return,
  \<open>error\<close> holds \<^verbatim>\<open>flow.error.get_state()\<close> when \<^verbatim>\<open>flow.error\<close> is set, and
  \<open>is_http\<close> is \<^verbatim>\<open>isinstance(flow, http.HTTPFlow)\<close>.
\<close>

record flow_state =
  fid :: string
  intercepted :: bool
  client_conn :: "pyval pydict"
  server_conn :: "pyval pydict"
  ftype :: string
  marked :: bool
  error :: "pyval option"
  is_http :: bool
  request :: "request option"
  response :: "response option"

record flow = flow_state +
  backup_state :: "flow_state option"

text \<open>
  Modelled from the spec: \<^verbatim>\<open>Flow.backup\<close>, \<^verbatim>\<open>Flow.revert\<close> and \<^verbatim>\<open>Flow.modified\<close>
  (\<^verbatim>\<open>mitmproxy/flow.py\<close> is not among the source files). The spec gives a flow a mutable
  "modified" flag: a flow is modified when a saved state exists and differs from the
  present one; \<open>backup\<close> saves the present state unless one is saved already, and
  \<open>revert\<close> restores the saved state and forgets it.
\<close>

definition get_state :: "flow \<Rightarrow> flow_state" where
  "get_state f = flow_state.truncate f"

definition modified :: "flow \<Rightarrow> bool" where
  "modified f = (case backup_state f of None \<Rightarrow> False | Some b \<Rightarrow> b \<noteq> get_state f)"

definition backup :: "flow \<Rightarrow> flow" where
  "backup f = (case backup_state f of None \<Rightarrow> f\<lparr>backup_state := Some (get_state f)\<rparr> | Some b \<Rightarrow> f)"

definition revert :: "flow \<Rightarrow> flow" where
  "revert f =
     (case backup_state f of
        None \<Rightarrow> f
      | Some b \<Rightarrow> flow_state.extend b (flow.fields None))"

section \<open>The flow projection \<^verbatim>\<open>flow_to_json\<close>\<close>

text \<open>
  Library functions the projection calls: \<^verbatim>\<open>hashlib.sha256(b).hexdigest()\<close>,
  \<^verbatim>\<open>b.decode(errors="backslashreplace")\<close> and the property \<^verbatim>\<open>request.pretty_host\<close>.
\<close>

record externals =
  sha256_hexdigest :: "string \<Rightarrow> string"
  decode_backslashreplace :: "string \<Rightarrow> string"
  pretty_host :: "request \<Rightarrow> string"

definition opt_float :: "real option \<Rightarrow> pyval" where
  "opt_float t = (case t of None \<Rightarrow> PyNone | Some x \<Rightarrow> PyFloat x)"

text \<open>\<^verbatim>\<open>tuple(message.headers.items(True))\<close>.\<close>

definition headers_items :: "(string \<times> string) list \<Rightarrow> pyval" where
  "headers_items hs = PyList (map (\<lambda>(k, v). PyList [PyStr k, PyStr v]) hs)"

text \<open>
  The loop \<^verbatim>\<open>for conn in "client_conn", "server_conn"\<close>: a missing
  \<^verbatim>\<open>alpn_proto_negotiated\<close> key raises \<^verbatim>\<open>KeyError\<close>, \<^verbatim>\<open>None\<close> is skipped, bytes
  are decoded; any other value has no \<^verbatim>\<open>decode\<close> taking \<^verbatim>\<open>errors\<close>.
\<close>

fun decode_alpn :: "externals \<Rightarrow> string list \<Rightarrow> pyval pydict \<Rightarrow> exn + pyval pydict" where
  "decode_alpn ext [] f = Inr f"
| "decode_alpn ext (conn # conns) f =
     (case getitem f conn of
        Inl e \<Rightarrow> Inl e
      | Inr (PyDict c) \<Rightarrow>
          (case getitem c ''alpn_proto_negotiated'' of
             Inl e \<Rightarrow> Inl e
           | Inr PyNone \<Rightarrow> decode_alpn ext conns f
           | Inr (PyBytes b) \<Rightarrow>
               decode_alpn ext conns
                 (AList.update conn
                    (PyDict (AList.update ''alpn_proto_negotiated''
                               (PyStr (decode_backslashreplace ext b)) c)) f)
           | Inr _ \<Rightarrow> Inl AttributeError)
      | Inr _ \<Rightarrow> Inl TypeError)"

text \<open>
  The pair \<^verbatim>\<open>(content_length, content_hash)\<close>: the test \<^verbatim>\<open>if message.raw_content:\<close>
  is false for \<^verbatim>\<open>None\<close> and for the empty byte string.
\<close>

definition content_length_hash :: "externals \<Rightarrow> string option \<Rightarrow> pyval \<times> pyval" where
  "content_length_hash ext rc =
     (case rc of
        None \<Rightarrow> (PyNone, PyNone)
      | Some b \<Rightarrow>
          if b \<noteq> [] then (PyInt (int (length b)), PyStr (sha256_hexdigest ext b))
          else (PyNone, PyNone))"

definition request_json :: "externals \<Rightarrow> request \<Rightarrow> pyval" where
  "request_json ext r =
     (let (content_length, content_hash) = content_length_hash ext (raw_content r)
      in PyDict
        [(''method'', PyStr (http_method r)),
         (''scheme'', PyStr (scheme r)),
         (''host'', PyStr (host r)),
         (''port'', PyInt (port r)),
         (''path'', PyStr (path r)),
         (''http_version'', PyStr (http_version r)),
         (''headers'', headers_items (headers r)),
         (''contentLength'', content_length),
         (''contentHash'', content_hash),
         (''timestamp_start'', opt_float (timestamp_start r)),
         (''timestamp_end'', opt_float (timestamp_end r)),
         (''is_replay'', PyBool (is_replay r)),
         (''pretty_host'', PyStr (pretty_host ext r))])"

definition response_json :: "externals \<Rightarrow> response \<Rightarrow> pyval" where
  "response_json ext r =
     (let (content_length, content_hash) = content_length_hash ext (raw_content r)
      in PyDict
        [(''http_version'', PyStr (http_version r)),
         (''status_code'', PyInt (status_code r)),
         (''reason'', PyStr (reason r)),
         (''headers'', headers_items (headers r)),
         (''contentLength'', content_length),
         (''contentHash'', content_hash),
         (''timestamp_start'', opt_float (timestamp_start r)),
         (''timestamp_end'', opt_float (timestamp_end r)),
         (''is_replay'', PyBool (is_replay r))])"

text \<open>
  The initial dictionary \<^verbatim>\<open>f\<close>, and the statements after the loop, which cannot raise.
\<close>

definition flow_to_json_rest :: "externals \<Rightarrow> flow \<Rightarrow> pyval pydict \<Rightarrow> pyval pydict" where
  "flow_to_json_rest ext flow f0 =
     (let f1 = pop_in ''client_conn'' ''tls_extensions'' f0;
          f2 = (case error flow of None \<Rightarrow> f1 | Some e \<Rightarrow> AList.update ''error'' e f1);
          f3 = (if is_http flow then
                  (let g = (case request flow of
                              None \<Rightarrow> f2
                            | Some r \<Rightarrow> AList.update ''request'' (request_json ext r) f2)
                   in case response flow of
                        None \<Rightarrow> g
                      | Some r \<Rightarrow> AList.update ''response'' (response_json ext r) g)
                else f2);
          f4 = pop_in ''server_conn'' ''cert'' f3
      in pop_in ''client_conn'' ''mitmcert'' f4)"

definition flow_to_json_init :: "flow \<Rightarrow> pyval pydict" where
  "flow_to_json_init flow =
     [(''id'', PyStr (fid flow)),
      (''intercepted'', PyBool (intercepted flow)),
      (''client_conn'', PyDict (client_conn flow)),
      (''server_conn'', PyDict (server_conn flow)),
      (''type'', PyStr (ftype flow)),
      (''modified'', PyBool (modified flow)),
      (''marked'', PyBool (marked flow))]"

definition flow_to_json :: "externals \<Rightarrow> flow \<Rightarrow> exn + pyval pydict" where
  "flow_to_json ext flow =
     (case decode_alpn ext [''client_conn'', ''server_conn''] (flow_to_json_init flow) of
        Inl e \<Rightarrow> Inl e
      | Inr f0 \<Rightarrow> Inr (flow_to_json_rest ext flow f0))"

section \<open>The scenario store\<close>

text \<open>
  A rule is the field dictionary posted by the client; a RuleSet keeps, per label, the
  ordered list of its rules. A scenario is the tuple \<^verbatim>\<open>(flows, {flow_id: RuleSet})\<close>
  that the handlers index with \<^verbatim>\<open>[0]\<close> and \<^verbatim>\<open>[1]\<close>.
\<close>

type_synonym rule = "pyval pydict"
type_synonym ruleset = "rule list pydict"
type_synonym scenario_entry = "flow list \<times> ruleset pydict"

text \<open>
  The state the handlers reach through \<^verbatim>\<open>self.application.master\<close>: the flows of the
  view (\<^verbatim>\<open>for f in self.view\<close>), \<^verbatim>\<open>view.scenarios\<close>, \<^verbatim>\<open>view.scenario\<close> (the
  current scenario's name), \<^verbatim>\<open>view.mock\<close>, \<^verbatim>\<open>view.learning\<close>, and the matchers
  registered through \<^verbatim>\<open>view.newMatcher\<close>. Flows are compared by value where the source
  compares object identity (\<^verbatim>\<open>f in self.scenarios[i][0]\<close>).
\<close>

record master =
  flows :: "flow list"
  scenarios :: "scenario_entry pydict"
  scenario :: string
  mock :: bool
  learning :: bool
  matchers :: "pyval pydict"

definition keys :: "'v pydict \<Rightarrow> string list" where
  "keys d = map fst d"

text \<open>\<^verbatim>\<open>del d[k]\<close>, \<^verbatim>\<open>xs.index(x)\<close> and \<^verbatim>\<open>xs[i]\<close> with Python's negative indices.\<close>

definition delitem :: "'v pydict \<Rightarrow> string \<Rightarrow> exn + 'v pydict" where
  "delitem d k = (case map_of d k of None \<Rightarrow> Inl KeyError | Some v \<Rightarrow> Inr (AList.delete k d))"

fun index_of :: "'a list \<Rightarrow> 'a \<Rightarrow> nat option" where
  "index_of [] x = None"
| "index_of (y # ys) x = (if y = x then Some 0 else map_option Suc (index_of ys x))"

definition list_getitem :: "'a list \<Rightarrow> int \<Rightarrow> exn + 'a" where
  "list_getitem xs i =
     (if 0 \<le> i then
        (if i < int (length xs) then Inr (xs ! nat i) else Inl IndexError)
      else
        (if - int (length xs) \<le> i then Inr (xs ! nat (int (length xs) + i))
         else Inl IndexError))"

subsection \<open>The view's methods\<close>

text \<open>
  Modelled from the spec: the methods of the view (\<^verbatim>\<open>mitmproxy/addons/view.py\<close> is not
  among the source files). \<open>addScen\<close> is the spec's \<^verbatim>\<open>addScenario\<close>: it fails with
  \<open>DuplicateNameError\<close> if the name exists and otherwise inserts an empty scenario.
  \<open>setScen\<close> is the spec's \<^verbatim>\<open>setCurrent\<close>: it fails with \<open>NotFoundError\<close> if the
  name is non-empty and absent, and otherwise sets the current scenario.
  \<open>switchMock\<close> and \<open>switchLearning\<close> flip their flag. \<open>view_remove\<close> is the
  FlowStore's \<^verbatim>\<open>remove(flows)\<close>, \<open>newMatcher\<close> its \<^verbatim>\<open>registerMatcher(id, payload)\<close>
  and \<open>get_by_id\<close> its \<^verbatim>\<open>getById(id)\<close>.
\<close>

definition addScen :: "string \<Rightarrow> master \<Rightarrow> exn option \<times> master" where
  "addScen name st =
     (if name \<in> set (keys (scenarios st)) then (Some DuplicateNameError, st)
      else (None, st\<lparr>scenarios := AList.update name ([], []) (scenarios st)\<rparr>))"

definition setScen :: "string \<Rightarrow> master \<Rightarrow> exn option \<times> master" where
  "setScen name st =
     (if name \<noteq> [] \<and> name \<notin> set (keys (scenarios st)) then (Some NotFoundError, st)
      else (None, st\<lparr>scenario := name\<rparr>))"

definition switchMock :: "master \<Rightarrow> master" where
  "switchMock st = st\<lparr>mock := \<not> mock st\<rparr>"

definition switchLearning :: "master \<Rightarrow> master" where
  "switchLearning st = st\<lparr>learning := \<not> learning st\<rparr>"

definition view_remove :: "flow list \<Rightarrow> master \<Rightarrow> master" where
  "view_remove fs st = st\<lparr>flows := filter (\<lambda>f. fid f \<notin> set (map fid fs)) (flows st)\<rparr>"

definition newMatcher :: "string \<Rightarrow> pyval \<Rightarrow> master \<Rightarrow> master" where
  "newMatcher i m st = st\<lparr>matchers := AList.update i m (matchers st)\<rparr>"

definition get_by_id :: "master \<Rightarrow> string \<Rightarrow> flow option" where
  "get_by_id st i = find (\<lambda>f. fid f = i) (flows st)"

subsection \<open>Rule sets\<close>

text \<open>
  Modelled from the spec: the RuleSet class and its methods (the class is not among the
  source files). \<open>addRule\<close> appends at the end of the label's list; \<open>setRule\<close> replaces
  at a valid index, appends at the index equal to the length and fails with
  \<open>IndexOutOfRangeError\<close> beyond; \<open>switchRules\<close> swaps two positions and fails with
  \<open>IndexOutOfRangeError\<close> when an index is out of range; \<open>deleteRule\<close> removes the
  rule, the later ones moving down, and removes the label's entry when its list becomes
  empty; \<open>toDict\<close> is the transport form, a sequence of field mappings per label.
\<close>

definition rules_of :: "ruleset \<Rightarrow> string \<Rightarrow> rule list" where
  "rules_of rs label = (case map_of rs label of None \<Rightarrow> [] | Some l \<Rightarrow> l)"

definition in_range :: "'a list \<Rightarrow> int \<Rightarrow> bool" where
  "in_range l i = (0 \<le> i \<and> i < int (length l))"

definition addRule :: "string \<Rightarrow> rule \<Rightarrow> ruleset \<Rightarrow> exn + ruleset" where
  "addRule label flds rs = Inr (AList.update label (rules_of rs label @ [flds]) rs)"

definition setRule :: "string \<Rightarrow> rule \<Rightarrow> int \<Rightarrow> ruleset \<Rightarrow> exn + ruleset" where
  "setRule label flds index rs =
     (let l = rules_of rs label
      in if in_range l index then Inr (AList.update label (l[nat index := flds]) rs)
         else if index = int (length l) then Inr (AList.update label (l @ [flds]) rs)
         else Inl IndexOutOfRangeError)"

definition switchRules :: "string \<Rightarrow> int \<Rightarrow> int \<Rightarrow> ruleset \<Rightarrow> exn + ruleset" where
  "switchRules label i j rs =
     (let l = rules_of rs label
      in if in_range l i \<and> in_range l j
         then Inr (AList.update label (l[nat i := l ! nat j, nat j := l ! nat i]) rs)
         else Inl IndexOutOfRangeError)"

definition deleteRule :: "string \<Rightarrow> int \<Rightarrow> ruleset \<Rightarrow> exn + ruleset" where
  "deleteRule label index rs =
     (let l = rules_of rs label
      in if in_range l index
         then (let l' = take (nat index) l @ drop (Suc (nat index)) l
               in Inr (if l' = [] then AList.delete label rs else AList.update label l' rs))
         else Inl NotFoundError)"

definition toDict :: "ruleset \<Rightarrow> pyval" where
  "toDict rs = PyDict (map (\<lambda>(label, l). (label, PyList (map PyDict l))) rs)"

section \<open>Scenario handlers\<close>

text \<open>
  A handler returns the exception it raised, if any, together with the state it leaves
  behind: an exception does not undo the assignments made before it.
\<close>

text \<open>\<^verbatim>\<open>Scenario.post\<close>: create the scenario unless it exists, then make it current.\<close>

definition Scenario_post :: "string \<Rightarrow> master \<Rightarrow> exn option \<times> master" where
  "Scenario_post name st =
     (case (if name \<notin> set (keys (scenarios st)) then addScen name st else (None, st)) of
        (Some e, st1) \<Rightarrow> (Some e, st1)
      | (None, st1) \<Rightarrow> setScen name st1)"

text \<open>
  \<^verbatim>\<open>DeleteScenario.post\<close>: \<^verbatim>\<open>keys.index\<close> raises \<^verbatim>\<open>ValueError\<close> for an unknown
  name; the current scenario is re-selected before the flows are removed from the view
  and the entry is popped.
\<close>

definition reselect :: "string list \<Rightarrow> nat \<Rightarrow> master \<Rightarrow> exn option \<times> master" where
  "reselect ks index st =
     (if length ks = 1 then setScen [] st
      else if index \<noteq> 0 then
        (case list_getitem ks (int index - 1) of
           Inl e \<Rightarrow> (Some e, st) | Inr k \<Rightarrow> setScen k st)
      else
        (case list_getitem ks (int index + 1) of
           Inl e \<Rightarrow> (Some e, st) | Inr k \<Rightarrow> setScen k st))"

definition DeleteScenario_post :: "string \<Rightarrow> master \<Rightarrow> exn option \<times> master" where
  "DeleteScenario_post name st =
     (let ks = keys (scenarios st)
      in case index_of ks name of
           None \<Rightarrow> (Some ValueError, st)
         | Some index \<Rightarrow>
             (case reselect ks index st of
                (Some e, st1) \<Rightarrow> (Some e, st1)
              | (None, st1) \<Rightarrow>
                  (case getitem (scenarios st1) name of
                     Inl e \<Rightarrow> (Some e, st1)
                   | Inr (fs, rs) \<Rightarrow>
                       (let st2 = view_remove fs st1
                        in (None, st2\<lparr>scenarios := AList.delete name (scenarios st2)\<rparr>)))))"

text \<open>
  \<^verbatim>\<open>CopyScenario.post\<close>: the source is always the current scenario; the entry is
  stored under the new name, the current name is deleted, and the new name is made
  current.
\<close>

definition CopyScenario_post :: "string \<Rightarrow> master \<Rightarrow> exn option \<times> master" where
  "CopyScenario_post name st =
     (case getitem (scenarios st) (scenario st) of
        Inl e \<Rightarrow> (Some e, st)
      | Inr entry \<Rightarrow>
          (let st1 = st\<lparr>scenarios := AList.update name entry (scenarios st)\<rparr>
           in case delitem (scenarios st1) (scenario st1) of
                Inl e \<Rightarrow> (Some e, st1)
              | Inr d \<Rightarrow> setScen name (st1\<lparr>scenarios := d\<rparr>)))"

definition SwitchBouchonMode_post :: "master \<Rightarrow> exn option \<times> master" where
  "SwitchBouchonMode_post st = (None, switchMock st)"

definition SwitchLearning_post :: "master \<Rightarrow> exn option \<times> master" where
  "SwitchLearning_post st = (None, switchLearning st)"

section \<open>Rule handlers\<close>

text \<open>
  \<^verbatim>\<open>self.scenarios[self.scenario][1][flow_id].op(...)\<close>: both subscripts raise
  \<^verbatim>\<open>KeyError\<close>; the RuleSet is changed in place.
\<close>

definition with_rules ::
  "string \<Rightarrow> (ruleset \<Rightarrow> exn + ruleset) \<Rightarrow> master \<Rightarrow> exn option \<times> master" where
  "with_rules flow_id op st =
     (case getitem (scenarios st) (scenario st) of
        Inl e \<Rightarrow> (Some e, st)
      | Inr (fs, rs) \<Rightarrow>
          (case getitem rs flow_id of
             Inl e \<Rightarrow> (Some e, st)
           | Inr r \<Rightarrow>
               (case op r of
                  Inl e \<Rightarrow> (Some e, st)
                | Inr r' \<Rightarrow>
                    (None, st\<lparr>scenarios :=
                       AList.update (scenario st) (fs, AList.update flow_id r' rs)
                         (scenarios st)\<rparr>))))"

text \<open>
  \<^verbatim>\<open>RuleHandler.put\<close>. The argument is the value of \<^verbatim>\<open>self.json\<close> (an \<open>APIError\<close>
  or the decoded body). Labels are strings and indices integers, as the RuleSet model
  has them; another label or index is a \<^verbatim>\<open>TypeError\<close>.
\<close>

definition RuleHandler_put :: "string \<Rightarrow> exn + pyval \<Rightarrow> master \<Rightarrow> exn option \<times> master" where
  "RuleHandler_put flow_id json st =
     (case json of
        Inl e \<Rightarrow> (Some e, st)
      | Inr (PyDict d) \<Rightarrow>
          (case getitem d ''Index'' of
             Inl e \<Rightarrow> (Some e, st)
           | Inr index \<Rightarrow>
               (case getitem (AList.delete ''Index'' d) ''Label'' of
                  Inl e \<Rightarrow> (Some e, st)
                | Inr (PyStr label) \<Rightarrow>
                    (let tmpdict = AList.delete ''Label'' (AList.delete ''Index'' d)
                     in if index = PyInt (- 1) \<or> index = PyFloat (- 1)
                        then with_rules flow_id (addRule label tmpdict) st
                        else (case index of
                                PyInt i \<Rightarrow> with_rules flow_id (setRule label tmpdict i) st
                              | _ \<Rightarrow> (Some TypeError, st)))
                | Inr _ \<Rightarrow> (Some TypeError, st)))
      | Inr (PyList l) \<Rightarrow> (Some TypeError, st)
      | Inr _ \<Rightarrow> (Some AttributeError, st))"

text \<open>
  \<^verbatim>\<open>RuleUp.post\<close>, \<^verbatim>\<open>RuleDown.post\<close> and \<^verbatim>\<open>RuleDelete.post\<close>: the route only admits
  \<^verbatim>\<open>[0-9]+\<close> for the index, so \<^verbatim>\<open>int(index)\<close> is a natural number.
\<close>

definition RuleUp_post :: "string \<Rightarrow> string \<Rightarrow> nat \<Rightarrow> master \<Rightarrow> exn option \<times> master" where
  "RuleUp_post flow_id label index st =
     with_rules flow_id (switchRules label (int index) (int index - 1)) st"

definition RuleDown_post :: "string \<Rightarrow> string \<Rightarrow> nat \<Rightarrow> master \<Rightarrow> exn option \<times> master" where
  "RuleDown_post flow_id label index st =
     with_rules flow_id (switchRules label (int index) (int index + 1)) st"

definition RuleDelete_post :: "string \<Rightarrow> string \<Rightarrow> nat \<Rightarrow> master \<Rightarrow> exn option \<times> master" where
  "RuleDelete_post flow_id label index st =
     with_rules flow_id (deleteRule label (int index)) st"

section \<open>Listing the flows\<close>

text \<open>
  \<^verbatim>\<open>Flows.get\<close>. For each flow of the view: its projection, the name of the last
  scenario (in key order) whose flow list holds it, and that scenario's RuleSet for the
  flow in transport form (a \<^verbatim>\<open>KeyError\<close> when the scenario has none). The current
  scenario's name is appended when it is not empty. Only then are the two flags
  switched off.
\<close>

definition mark_scenario :: "scenario_entry pydict \<Rightarrow> flow \<Rightarrow> pyval pydict \<Rightarrow> pyval pydict" where
  "mark_scenario scs f dic =
     fold (\<lambda>(i, (fs, rs)) dic. if f \<in> set fs then AList.update ''scenario'' (PyStr i) dic else dic)
       scs dic"

definition default_rules :: pyval where
  "default_rules = PyDict [(''Headers'', PyList []), (''Content'', PyList []), (''URI'', PyList [])]"

definition flow_rules :: "scenario_entry pydict \<Rightarrow> flow \<Rightarrow> pyval pydict \<Rightarrow> exn + pyval" where
  "flow_rules scs f dic =
     (case map_of dic ''scenario'' of
        Some (PyStr i) \<Rightarrow>
          (case getitem scs i of
             Inl e \<Rightarrow> Inl e
           | Inr (fs, rs) \<Rightarrow>
               (case getitem rs (fid f) of Inl e \<Rightarrow> Inl e | Inr r \<Rightarrow> Inr (toDict r)))
      | _ \<Rightarrow> Inr default_rules)"

fun listing_loop :: "externals \<Rightarrow> scenario_entry pydict \<Rightarrow> flow list \<Rightarrow> pyval list \<Rightarrow> exn + pyval list" where
  "listing_loop ext scs [] li = Inr li"
| "listing_loop ext scs (f # fs) li =
     (case flow_to_json ext f of
        Inl e \<Rightarrow> Inl e
      | Inr dic0 \<Rightarrow>
          (let dic = mark_scenario scs f dic0
           in case flow_rules scs f dic of
                Inl e \<Rightarrow> Inl e
              | Inr r \<Rightarrow> listing_loop ext scs fs (li @ [PyList [PyDict dic, r]])))"

definition listing :: "externals \<Rightarrow> master \<Rightarrow> exn + pyval list" where
  "listing ext st =
     (case listing_loop ext (scenarios st) (flows st) [] of
        Inl e \<Rightarrow> Inl e
      | Inr li \<Rightarrow> Inr (if scenario st \<noteq> [] then li @ [PyStr (scenario st)] else li))"

definition Flows_get :: "externals \<Rightarrow> master \<Rightarrow> (exn + pyval list) \<times> master" where
  "Flows_get ext st =
     (case listing ext st of
        Inl e \<Rightarrow> (Inl e, st)
      | Inr li \<Rightarrow>
          (let st1 = (if mock st then switchMock st else st);
               st2 = (if learning st1 then switchLearning st1 else st1)
           in (Inr li, st2)))"

section \<open>Export and import of a capture\<close>

text \<open>
  \<^verbatim>\<open>DumpFlows.get\<close> writes into a \<^verbatim>\<open>BytesIO\<close>: an opening brace, one entry
  \<^verbatim>\<open>'id': str(m), \<close> for each item of \<^verbatim>\<open>self.scenarios[self.scenario][1]\<close>, a closing
  brace with a blank and a newline, and then one record per flow of
  \<^verbatim>\<open>self.scenarios[self.scenario][0]\<close>. \<open>str_of\<close> is \<^verbatim>\<open>str\<close> on the mapping's values
  and \<open>add\<close> gives the bytes that \<^verbatim>\<open>FlowWriter.add\<close> writes for a flow.
\<close>

definition apostrophe :: string where
  "apostrophe = [CHR 0x27]"

definition newline :: string where
  "newline = [CHR 0x0A]"

definition write_entry :: "(ruleset \<Rightarrow> string) \<Rightarrow> string \<times> ruleset \<Rightarrow> string \<Rightarrow> string" where
  "write_entry str_of = (\<lambda>(i, m) bio.
     bio @ (apostrophe @ i @ apostrophe @ '': '' @ str_of m @ '', ''))"

text \<open>The text of one header entry.\<close>

definition entry_text :: "('m \<Rightarrow> string) \<Rightarrow> string \<times> 'm \<Rightarrow> string" where
  "entry_text str_of = (\<lambda>(i, m). apostrophe @ i @ apostrophe @ '': '' @ str_of m @ '', '')"

definition DumpFlows_get ::
  "(ruleset \<Rightarrow> string) \<Rightarrow> (flow \<Rightarrow> string) \<Rightarrow> master \<Rightarrow> exn + string" where
  "DumpFlows_get str_of add st =
     (let bio0 = ''{''
      in case getitem (scenarios st) (scenario st) of
           Inl e \<Rightarrow> Inl e
         | Inr (fs, rs) \<Rightarrow>
             (let bio1 = fold (write_entry str_of) rs bio0;
                  bio2 = bio1 @ (''} '' @ newline);
                  bio3 = fold (\<lambda>f bio. bio @ add f) fs bio2
              in Inr bio3))"

text \<open>
  The export as the spec words it: a header that maps each flow id of the scenario to
  the matcher registered for it, followed by the flows' records. It is stated only to be
  compared with \<open>DumpFlows_get\<close>.
\<close>

definition spec_dump ::
  "(pyval \<Rightarrow> string) \<Rightarrow> (flow \<Rightarrow> string) \<Rightarrow> master \<Rightarrow> exn + string" where
  "spec_dump str_of add st =
     (case getitem (scenarios st) (scenario st) of
        Inl e \<Rightarrow> Inl e
      | Inr (fs, rs) \<Rightarrow>
          Inr (''{''
             @ concat (map (\<lambda>(i, m). apostrophe @ i @ apostrophe @ '': '' @ str_of m @ '', '')
                         (filter (\<lambda>(i, m). i \<in> set (map fid fs)) (matchers st)))
             @ ''} '' @ newline
             @ concat (map add fs)))"

text \<open>\<^verbatim>\<open>bio.readline()\<close>: the bytes up to and including the first newline, and the rest.\<close>

fun readline :: "string \<Rightarrow> string \<times> string" where
  "readline [] = ([], [])"
| "readline (c # cs) =
     (if [c] = newline then ([c], cs) else (let (l, r) = readline cs in (c # l, r)))"

text \<open>
  \<^verbatim>\<open>DumpFlows.post\<close>. The statements before the upload is read: learning is switched on
  if it is off, the current scenario's flows are removed from the view when the current
  name is not empty (the subscript raises \<^verbatim>\<open>KeyError\<close> for a name that is not a key),
  and the current name is bound to the empty entry \<^verbatim>\<open>([], {})\<close>.
\<close>

definition import_prepare :: "master \<Rightarrow> exn option \<times> master" where
  "import_prepare st =
     (let st1 = (if \<not> learning st then switchLearning st else st)
      in case (if scenario st1 \<noteq> [] then
                 (case getitem (scenarios st1) (scenario st1) of
                    Inl e \<Rightarrow> (Some e, st1)
                  | Inr (fs, rs) \<Rightarrow> (None, view_remove fs st1))
               else (None, st1)) of
           (Some e, st2) \<Rightarrow> (Some e, st2)
         | (None, st2) \<Rightarrow>
             (None, st2\<lparr>scenarios := AList.update (scenario st2) ([], []) (scenarios st2)\<rparr>))"

text \<open>
  \<^verbatim>\<open>matchers = eval(bio.readline().decode())\<close> and \<^verbatim>\<open>matchers.items()\<close>. Python's
  \<^verbatim>\<open>eval\<close> evaluates the line as an expression in the frame of the handler, where
  \<^verbatim>\<open>self\<close> is bound: it returns a value or raises (\<^verbatim>\<open>SyntaxError\<close>, \<^verbatim>\<open>NameError\<close>, or
  whatever the expression raises; a line that is not UTF-8 raises in \<^verbatim>\<open>decode\<close>), and
  the expression can change the state on the way. So \<open>eval_header\<close> takes the line and
  the state and gives the outcome and the state it leaves. A value that is not a
  dictionary has no \<^verbatim>\<open>items\<close>.
\<close>

definition dict_items :: "pyval \<Rightarrow> exn + pyval pydict" where
  "dict_items v = (case v of PyDict d \<Rightarrow> Inr d | _ \<Rightarrow> Inl AttributeError)"

definition header_items ::
  "(string \<Rightarrow> master \<Rightarrow> (exn + pyval) \<times> master) \<Rightarrow> string \<Rightarrow> master
     \<Rightarrow> (exn + pyval pydict) \<times> master" where
  "header_items eval_header line st =
     (case eval_header line st of
        (Inl e, st4) \<Rightarrow> (Inl e, st4)
      | (Inr v, st4) \<Rightarrow> (dict_items v, st4))"

text \<open>
  The rest of \<^verbatim>\<open>DumpFlows.post\<close>. The header's items are registered with
  \<^verbatim>\<open>view.newMatcher\<close>. \<open>stream\<close> stands for \<^verbatim>\<open>io.FlowReader(bio).stream()\<close>: the flows
  decoded from the remaining bytes, and whether the stream ends on a malformed record.
  The body of the loop is \<^verbatim>\<open>asyncio.call_soon(self.master.load_flow, i)\<close>; the module
  \<^verbatim>\<open>asyncio\<close> has no attribute \<^verbatim>\<open>call_soon\<close>, so the first decoded flow raises
  \<^verbatim>\<open>AttributeError\<close> and no flow is ever passed on.
\<close>

definition DumpFlows_post ::
  "(string \<Rightarrow> master \<Rightarrow> (exn + pyval) \<times> master) \<Rightarrow> (string \<Rightarrow> flow list \<times> bool) \<Rightarrow> string
     \<Rightarrow> master \<Rightarrow> exn option \<times> master" where
  "DumpFlows_post eval_header stream filecontents st =
     (case import_prepare st of
        (Some e, st3) \<Rightarrow> (Some e, st3)
      | (None, st3) \<Rightarrow>
          (let (line, rest) = readline filecontents
           in case header_items eval_header line st3 of
                (Inl e, st4) \<Rightarrow> (Some e, st4)
              | (Inr ms, st4) \<Rightarrow>
                  (let st5 = fold (\<lambda>(i, m) s. newMatcher i m s) ms st4;
                       (fs, bad) = stream rest
                   in (if fs \<noteq> [] then Some AttributeError
                       else if bad then Some CodecError
                       else None, st5))))"

section \<open>Updating a flow\<close>

text \<open>
  Python's built-ins as \<^verbatim>\<open>FlowHandler.put\<close> uses them. \<open>py_repr\<close> is \<^verbatim>\<open>str\<close> on a
  value that is not a string, \<open>int_of_str\<close> is \<^verbatim>\<open>int\<close> on a string (\<open>None\<close> for a
  \<^verbatim>\<open>ValueError\<close>), and the two setters are the property \<^verbatim>\<open>message.text\<close> of a
  request and of a response.
\<close>

record builtins =
  py_repr :: "pyval \<Rightarrow> string"
  int_of_str :: "string \<Rightarrow> int option"
  request_set_text :: "pyval \<Rightarrow> request \<Rightarrow> exn + request"
  response_set_text :: "pyval \<Rightarrow> response \<Rightarrow> exn + response"

definition py_str :: "builtins \<Rightarrow> pyval \<Rightarrow> string" where
  "py_str b v = (case v of PyStr s \<Rightarrow> s | _ \<Rightarrow> py_repr b v)"

definition py_int :: "builtins \<Rightarrow> pyval \<Rightarrow> exn + int" where
  "py_int b v =
     (case v of
        PyInt n \<Rightarrow> Inr n
      | PyBool t \<Rightarrow> Inr (if t then 1 else 0)
      | PyFloat x \<Rightarrow> Inr (if 0 \<le> x then \<lfloor>x\<rfloor> else \<lceil>x\<rceil>)
      | PyStr s \<Rightarrow> (case int_of_str b s of None \<Rightarrow> Inl ValueError | Some n \<Rightarrow> Inr n)
      | PyBytes s \<Rightarrow> (case int_of_str b s of None \<Rightarrow> Inl ValueError | Some n \<Rightarrow> Inr n)
      | _ \<Rightarrow> Inl TypeError)"

text \<open>Iterating a value: a list gives its items, a string its characters, a dictionary its keys.\<close>

definition py_iter :: "pyval \<Rightarrow> exn + pyval list" where
  "py_iter v =
     (case v of
        PyList xs \<Rightarrow> Inr xs
      | PyStr s \<Rightarrow> Inr (map (\<lambda>c. PyStr [c]) s)
      | PyDict d \<Rightarrow> Inr (map (\<lambda>(k, x). PyStr k) d)
      | _ \<Rightarrow> Inl TypeError)"

text \<open>
  \<^verbatim>\<open>message.headers.clear()\<close> followed by \<^verbatim>\<open>for header in v: message.headers.add(*header)\<close>:
  \<^verbatim>\<open>add\<close> takes exactly a name and a value, both strings.
\<close>

fun add_headers :: "pyval list \<Rightarrow> (string \<times> string) list \<Rightarrow> exn option \<times> (string \<times> string) list" where
  "add_headers [] hs = (None, hs)"
| "add_headers (header # rest) hs =
     (case py_iter header of
        Inl e \<Rightarrow> (Some e, hs)
      | Inr [PyStr k, PyStr v] \<Rightarrow> add_headers rest (hs @ [(k, v)])
      | Inr _ \<Rightarrow> (Some TypeError, hs))"

definition set_headers :: "pyval \<Rightarrow> 'a message_scheme \<Rightarrow> exn option \<times> 'a message_scheme" where
  "set_headers v m =
     (let m1 = m\<lparr>headers := []\<rparr>
      in case py_iter v of
           Inl e \<Rightarrow> (Some e, m1)
         | Inr hs \<Rightarrow> (case add_headers hs [] of (e, h) \<Rightarrow> (e, m1\<lparr>headers := h\<rparr>)))"

text \<open>One step of the loop over \<^verbatim>\<open>b.items()\<close> for the key \<^verbatim>\<open>"request"\<close>.\<close>

definition update_request_field :: "builtins \<Rightarrow> string \<Rightarrow> pyval \<Rightarrow> request \<Rightarrow> exn option \<times> request" where
  "update_request_field b k v r =
     (if k = ''method'' then (None, r\<lparr>http_method := py_str b v\<rparr>)
      else if k = ''scheme'' then (None, r\<lparr>scheme := py_str b v\<rparr>)
      else if k = ''host'' then (None, r\<lparr>host := py_str b v\<rparr>)
      else if k = ''path'' then (None, r\<lparr>path := py_str b v\<rparr>)
      else if k = ''http_version'' then (None, r\<lparr>http_version := py_str b v\<rparr>)
      else if k = ''port'' then
        (case py_int b v of Inl e \<Rightarrow> (Some e, r) | Inr n \<Rightarrow> (None, r\<lparr>port := n\<rparr>))
      else if k = ''headers'' then set_headers v r
      else if k = ''content'' then
        (case request_set_text b v r of Inl e \<Rightarrow> (Some e, r) | Inr r' \<Rightarrow> (None, r'))
      else (Some (APIError 400 (''Unknown update request.'' @ k @ '': '' @ py_str b v)), r))"

definition update_response_field :: "builtins \<Rightarrow> string \<Rightarrow> pyval \<Rightarrow> response \<Rightarrow> exn option \<times> response" where
  "update_response_field b k v r =
     (if k = ''msg'' then (None, r\<lparr>msg := Some (py_str b v)\<rparr>)
      else if k = ''http_version'' then (None, r\<lparr>http_version := py_str b v\<rparr>)
      else if k = ''code'' then
        (case py_int b v of Inl e \<Rightarrow> (Some e, r) | Inr n \<Rightarrow> (None, r\<lparr>status_code := n\<rparr>))
      else if k = ''headers'' then set_headers v r
      else if k = ''content'' then
        (case response_set_text b v r of Inl e \<Rightarrow> (Some e, r) | Inr r' \<Rightarrow> (None, r'))
      else (Some (APIError 400 (''Unknown update response.'' @ k @ '': '' @ py_str b v)), r))"

text \<open>
  The same step when \<^verbatim>\<open>flow.request\<close> (or \<^verbatim>\<open>flow.response\<close>) is \<^verbatim>\<open>None\<close>: a known
  key raises \<^verbatim>\<open>AttributeError\<close>, after \<^verbatim>\<open>int(v)\<close> has been evaluated for a port or a
  code; an unknown key raises the \<open>APIError\<close>.
\<close>

definition update_none_field :: "builtins \<Rightarrow> string list \<Rightarrow> string \<Rightarrow> string \<Rightarrow> string \<Rightarrow> pyval \<Rightarrow> exn" where
  "update_none_field b strs num what k v =
     (if k \<in> set strs then AttributeError
      else if k = num then (case py_int b v of Inl e \<Rightarrow> e | Inr n \<Rightarrow> AttributeError)
      else if k = ''headers'' \<or> k = ''content'' then AttributeError
      else APIError 400 (''Unknown update '' @ what @ ''.'' @ k @ '': '' @ py_str b v))"

fun update_request :: "builtins \<Rightarrow> (string \<times> pyval) list \<Rightarrow> request option \<Rightarrow> exn option \<times> request option" where
  "update_request b [] r = (None, r)"
| "update_request b ((k, v) # kvs) None =
     (Some (update_none_field b [''method'', ''scheme'', ''host'', ''path'', ''http_version'']
              ''port'' ''request'' k v), None)"
| "update_request b ((k, v) # kvs) (Some r) =
     (case update_request_field b k v r of
        (Some e, r') \<Rightarrow> (Some e, Some r')
      | (None, r') \<Rightarrow> update_request b kvs (Some r'))"

fun update_response :: "builtins \<Rightarrow> (string \<times> pyval) list \<Rightarrow> response option \<Rightarrow> exn option \<times> response option" where
  "update_response b [] r = (None, r)"
| "update_response b ((k, v) # kvs) None =
     (Some (update_none_field b [''msg'', ''http_version''] ''code'' ''response'' k v), None)"
| "update_response b ((k, v) # kvs) (Some r) =
     (case update_response_field b k v r of
        (Some e, r') \<Rightarrow> (Some e, Some r')
      | (None, r') \<Rightarrow> update_response b kvs (Some r'))"

text \<open>
  The loop over \<^verbatim>\<open>self.json.items()\<close>. \<^verbatim>\<open>hasattr(flow, "request")\<close> and
  \<^verbatim>\<open>hasattr(flow, "response")\<close> hold for an HTTP flow; \<^verbatim>\<open>b.items()\<close> raises
  \<^verbatim>\<open>AttributeError\<close> when \<open>b\<close> is not a dictionary.
\<close>

fun put_loop :: "builtins \<Rightarrow> (string \<times> pyval) list \<Rightarrow> flow \<Rightarrow> exn option \<times> flow" where
  "put_loop bi [] flow = (None, flow)"
| "put_loop bi ((a, b) # items) flow =
     (if a = ''request'' \<and> is_http flow then
        (case b of
           PyDict kvs \<Rightarrow>
             (case update_request bi kvs (request flow) of
                (Some e, r) \<Rightarrow> (Some e, flow\<lparr>request := r\<rparr>)
              | (None, r) \<Rightarrow> put_loop bi items (flow\<lparr>request := r\<rparr>))
         | _ \<Rightarrow> (Some AttributeError, flow))
      else if a = ''response'' \<and> is_http flow then
        (case b of
           PyDict kvs \<Rightarrow>
             (case update_response bi kvs (response flow) of
                (Some e, r) \<Rightarrow> (Some e, flow\<lparr>response := r\<rparr>)
              | (None, r) \<Rightarrow> put_loop bi items (flow\<lparr>response := r\<rparr>))
         | _ \<Rightarrow> (Some AttributeError, flow))
      else (Some (APIError 400 (''Unknown update '' @ a @ '': '' @ py_str bi b)), flow))"

text \<open>
  \<^verbatim>\<open>RequestHandler.flow\<close> and \<^verbatim>\<open>FlowHandler.put\<close>. The second argument of the handler
  is the value of \<^verbatim>\<open>self.json\<close>, read inside the \<^verbatim>\<open>try\<close>. Only an \<open>APIError\<close> is
  caught: the flow is reverted and the error raised again.
\<close>

definition RequestHandler_flow :: "master \<Rightarrow> string \<Rightarrow> exn + flow" where
  "RequestHandler_flow st flow_id =
     (case get_by_id st flow_id of
        Some flow \<Rightarrow> Inr flow
      | None \<Rightarrow> Inl (APIError 404 ''Flow not found.''))"

definition FlowHandler_put :: "builtins \<Rightarrow> exn + pyval \<Rightarrow> flow \<Rightarrow> exn option \<times> flow" where
  "FlowHandler_put bi json flow =
     (let flow1 = backup flow
      in case (case json of
                 Inl e \<Rightarrow> (Some e, flow1)
               | Inr (PyDict items) \<Rightarrow> put_loop bi items flow1
               | Inr _ \<Rightarrow> (Some AttributeError, flow1)) of
           (Some (APIError code m), flow2) \<Rightarrow> (Some (APIError code m), revert flow2)
         | (r, flow2) \<Rightarrow> (r, flow2))"

section \<open>The store invariant, and the neighbour chosen on deletion\<close>

text \<open>The current scenario is the empty string or a key of the scenario mapping.\<close>

definition store_inv :: "master \<Rightarrow> bool" where
  "store_inv st = (scenario st = [] \<or> scenario st \<in> set (keys (scenarios st)))"

text \<open>
  The name that \<^verbatim>\<open>DeleteScenario.post\<close> makes current for the key at position \<open>i\<close>.
\<close>

definition neighbour :: "string list \<Rightarrow> nat \<Rightarrow> string" where
  "neighbour ks i = (if length ks = 1 then [] else if i \<noteq> 0 then ks ! (i - 1) else ks ! 1)"

section \<open>Concrete inputs\<close>

definition ex_ext :: externals where
  "ex_ext = \<lparr>sha256_hexdigest = (\<lambda>b. ''digest''),
             decode_backslashreplace = (\<lambda>b. b),
             pretty_host = host\<rparr>"

definition ex_conn :: "pyval pydict" where
  "ex_conn = [(''address'', PyStr ''127.0.0.1''), (''alpn_proto_negotiated'', PyNone)]"

definition ex_request :: request where
  "ex_request =
     \<lparr>http_version = ''HTTP/1.1'', headers = [], raw_content = Some [],
      timestamp_start = None, timestamp_end = None, is_replay = False,
      http_method = ''GET'', scheme = ''http'', host = ''example.com'', port = 80, path = ''/''\<rparr>"

definition ex_response :: response where
  "ex_response =
     \<lparr>http_version = ''HTTP/1.1'', headers = [], raw_content = None,
      timestamp_start = None, timestamp_end = None, is_replay = False,
      status_code = 200, reason = ''OK'', msg = None\<rparr>"

definition ex_flow :: flow where
  "ex_flow =
     \<lparr>fid = ''f1'', intercepted = False, client_conn = ex_conn, server_conn = ex_conn,
      ftype = ''http'', marked = False, error = None, is_http = True,
      request = Some ex_request, response = Some ex_response, backup_state = None\<rparr>"

definition ex_rules :: ruleset where
  "ex_rules = [(''Headers'', [[(''x'', PyInt 1)], [(''y'', PyInt 2)]])]"

text \<open>Three scenarios \<open>A\<close>, \<open>B\<close>, \<open>C\<close> with a chosen current one, and a store with \<open>A\<close> only.\<close>

definition ex_store :: "string \<Rightarrow> master" where
  "ex_store cur =
     \<lparr>flows = [ex_flow],
      scenarios = [(''A'', ([ex_flow], [(''f1'', ex_rules)])), (''B'', ([], [])), (''C'', ([], []))],
      scenario = cur, mock = True, learning = False, matchers = []\<rparr>"

definition ex_single :: master where
  "ex_single =
     \<lparr>flows = [ex_flow],
      scenarios = [(''A'', ([ex_flow], [(''f1'', ex_rules)]))],
      scenario = ''A'', mock = False, learning = False, matchers = []\<rparr>"

text \<open>
  Three header lines as \<^verbatim>\<open>eval\<close> treats them: \<^verbatim>\<open>nope\<close>, an undefined name;
  \<^verbatim>\<open>self.view.add([f2]) or nope\<close>, which adds a flow to the view before the undefined
  name is reached; and \<^verbatim>\<open>{'f1': self.master.view.switchLearning()}\<close>, a mapping whose
  value is computed by switching the learning flag.
\<close>

definition ex_flow2 :: flow where
  "ex_flow2 = ex_flow\<lparr>fid := ''f2''\<rparr>"

definition ex_eval_undefined :: "string \<Rightarrow> master \<Rightarrow> (exn + pyval) \<times> master" where
  "ex_eval_undefined line st = (Inl NameError, st)"

definition ex_eval_adds :: "string \<Rightarrow> master \<Rightarrow> (exn + pyval) \<times> master" where
  "ex_eval_adds line st = (Inl NameError, st\<lparr>flows := flows st @ [ex_flow2]\<rparr>)"


definition ex_stream :: "string \<Rightarrow> flow list \<times> bool" where
  "ex_stream rest = ([], False)"

text \<open>A store with a matcher registered for the flow, and an update that fails half-way.\<close>

definition ex_registered :: master where
  "ex_registered = ex_single\<lparr>matchers := [(''f1'', PyStr ''M'')]\<rparr>"

definition ex_put :: pyval where
  "ex_put = PyDict [(''request'', PyDict [(''method'', PyStr ''POST''), (''port'', PyNone)])]"

section \<open>Properties of the handlers\<close>

subsection \<open>Lists and dictionaries\<close>

lemma index_of_Some: "index_of xs x = Some i \<Longrightarrow> i < length xs \<and> xs ! i = x"
  by (induction xs arbitrary: i) (auto split: if_splits)

lemma index_of_mem: "x \<in> set xs \<Longrightarrow> \<exists>i. index_of xs x = Some i"
  by (induction xs) auto

lemma index_of_append: "x \<notin> set pre \<Longrightarrow> index_of (pre @ x # post) x = Some (length pre)"
  by (induction pre) auto

lemma keys_delete: "keys (AList.delete k d) = removeAll k (keys d)"
  by (induction d) (auto simp: keys_def)

lemma keys_update: "set (keys (AList.update k v d)) = insert k (set (keys d))"
  using dom_update [of k v d] by (simp add: keys_def)

lemma map_of_keys: "(map_of d k = None) = (k \<notin> set (keys d))"
  by (simp add: keys_def map_of_eq_None_iff)

lemma list_getitem_nat: "i < length xs \<Longrightarrow> list_getitem xs (int i) = Inr (xs ! i)"
  by (simp add: list_getitem_def)

lemma setScen_key: "k \<in> set (keys (scenarios st)) \<Longrightarrow> setScen k st = (None, st\<lparr>scenario := k\<rparr>)"
  by (simp add: setScen_def)

lemma setScen_empty: "setScen [] st = (None, st\<lparr>scenario := []\<rparr>)"
  by (simp add: setScen_def)

subsection \<open>Deleting a scenario\<close>

lemma reselect_result:
  assumes "i < length ks" and "ks = keys (scenarios st)"
  shows "reselect ks i st = (None, st\<lparr>scenario := neighbour ks i\<rparr>)"
proof (cases "length ks = 1")
  case True
  then show ?thesis by (simp add: reselect_def neighbour_def setScen_empty)
next
  case False
  show ?thesis
  proof (cases "i = 0")
    case True
    have "0 < length ks" using assms(1) by (cases ks) auto
    with False have l: "1 < length ks" by linarith
    then have "list_getitem ks (int 1) = Inr (ks ! 1)" by (rule list_getitem_nat)
    moreover have "ks ! 1 \<in> set (keys (scenarios st))" using l assms(2) by simp
    ultimately show ?thesis using False True
      by (simp add: reselect_def neighbour_def setScen_key)
  next
    case nz: False
    then have "i - 1 < length ks" using assms by simp
    then have "list_getitem ks (int (i - 1)) = Inr (ks ! (i - 1))" by (rule list_getitem_nat)
    moreover have "int (i - 1) = int i - 1" using nz by simp
    moreover have "ks ! (i - 1) \<in> set (keys (scenarios st))" using assms nz by simp
    ultimately show ?thesis using False nz
      by (simp add: reselect_def neighbour_def setScen_key)
  qed
qed

lemma DeleteScenario_post_result:
  assumes "index_of (keys (scenarios st)) name = Some i"
  shows "\<exists>fs rs. map_of (scenarios st) name = Some (fs, rs) \<and>
     DeleteScenario_post name st =
       (None, (view_remove fs st)\<lparr>scenarios := AList.delete name (scenarios st),
                                  scenario := neighbour (keys (scenarios st)) i\<rparr>)"
proof -
  from index_of_Some [OF assms] have i: "i < length (keys (scenarios st))"
    and n: "name \<in> set (keys (scenarios st))" by auto
  then obtain fs rs where e: "map_of (scenarios st) name = Some (fs, rs)"
    using map_of_keys [of "scenarios st" name] by (cases "map_of (scenarios st) name") auto
  show ?thesis
    using e assms reselect_result [OF i refl]
    by (simp add: DeleteScenario_post_def Let_def getitem_def view_remove_def)
qed

lemma neighbour_pred:
  "distinct (pre @ p # x # post) \<Longrightarrow> neighbour (pre @ p # x # post) (Suc (length pre)) = p"
  by (simp add: neighbour_def nth_append)

lemma neighbour_in:
  assumes "distinct ks" and "i < length ks" and "length ks \<noteq> 1"
  shows "neighbour ks i \<in> set (removeAll (ks ! i) ks)"
proof (cases "i = 0")
  case True
  have "0 < length ks" using assms(2) by (cases ks) auto
  with assms(3) have l: "1 < length ks" by linarith
  then have "ks ! 1 \<noteq> ks ! 0"
    using nth_eq_iff_index_eq [OF assms(1), of 1 0] by (cases ks) auto
  then show ?thesis using True l assms(3) by (simp add: neighbour_def)
next
  case False
  with assms have "ks ! (i - 1) \<noteq> ks ! i"
    using nth_eq_iff_index_eq [OF assms(1), of "i - 1" i] by simp
  then show ?thesis using False assms by (simp add: neighbour_def)
qed

lemma removeAll_nil_singleton:
  "distinct ks \<Longrightarrow> removeAll x ks = [] \<Longrightarrow> x \<in> set ks \<Longrightarrow> ks = [x]"
  by (cases ks) (auto split: if_splits)

text \<open>
  Claim C4. Removing the current scenario leaves the current name empty if it was the only
  scenario; otherwise the current name becomes the removed scenario's immediate
  predecessor in key order, or its immediate successor if it was the first. So the current
  name is a key of the mapping if any scenario remains, and the empty string otherwise.
  The keys of a dictionary are distinct.
\<close>

theorem DeleteScenario_post_current:
  assumes d: "distinct (keys (scenarios st))"
    and c: "scenario st \<in> set (keys (scenarios st))"
    and r: "DeleteScenario_post (scenario st) st = (r, st')"
  shows "r = None
       \<and> keys (scenarios st') = removeAll (scenario st) (keys (scenarios st))
       \<and> (keys (scenarios st) = [scenario st] \<longrightarrow> scenario st' = [])
       \<and> (\<forall>pre p post. keys (scenarios st) = pre @ p # scenario st # post \<longrightarrow> scenario st' = p)
       \<and> (\<forall>s post. keys (scenarios st) = scenario st # s # post \<longrightarrow> scenario st' = s)
       \<and> (keys (scenarios st') \<noteq> [] \<longrightarrow> scenario st' \<in> set (keys (scenarios st')))
       \<and> (keys (scenarios st') = [] \<longrightarrow> scenario st' = [])"
proof -
  let ?ks = "keys (scenarios st)"
  from index_of_mem [OF c] obtain i where i: "index_of ?ks (scenario st) = Some i" by blast
  from index_of_Some [OF i] have il: "i < length ?ks" and ix: "?ks ! i = scenario st" by auto
  from DeleteScenario_post_result [OF i] r
  have r0: "r = None" and k': "keys (scenarios st') = removeAll (scenario st) ?ks"
    and s': "scenario st' = neighbour ?ks i"
    by (auto simp: keys_delete)
  have one: "scenario st' = []" if "?ks = [scenario st]"
    using that s' by (simp add: neighbour_def)
  have pred: "scenario st' = p" if "?ks = pre @ p # scenario st # post" for pre p post
  proof -
    have "scenario st \<notin> set (pre @ [p])" using d that by auto
    then have "index_of ((pre @ [p]) @ scenario st # post) (scenario st) = Some (length (pre @ [p]))"
      by (rule index_of_append)
    then have "i = Suc (length pre)" using i that by simp
    then show ?thesis using s' that d neighbour_pred [of pre p "scenario st" post] by simp
  qed
  have succ: "scenario st' = s" if "?ks = scenario st # s # post" for s post
  proof -
    have "i = 0" using i that by simp
    then show ?thesis using s' that by (simp add: neighbour_def)
  qed
  have ex: "scenario st' \<in> set (keys (scenarios st'))" if "keys (scenarios st') \<noteq> []"
  proof -
    have "length ?ks \<noteq> 1"
    proof
      assume "length ?ks = 1"
      then have "?ks = [scenario st]" using il ix by (cases ?ks) auto
      then show False using that k' by simp
    qed
    from neighbour_in [OF d il this] show ?thesis using s' k' ix by simp
  qed
  have emp: "scenario st' = []" if "keys (scenarios st') = []"
  proof -
    have "?ks = [scenario st]" using that k' d c by (simp add: removeAll_nil_singleton)
    then show ?thesis by (rule one)
  qed
  show ?thesis using r0 k' one pred succ ex emp by blast
qed


lemma ex_store_keys: "keys (scenarios (ex_store cur)) = [''A'', ''B'', ''C'']"
  by (simp add: ex_store_def keys_def)

theorem DeleteScenario_post_current_witness:
  "distinct (keys (scenarios (ex_store ''B'')))
   \<and> scenario (ex_store ''B'') \<in> set (keys (scenarios (ex_store ''B'')))
   \<and> fst (DeleteScenario_post ''B'' (ex_store ''B'')) = None
   \<and> scenario (snd (DeleteScenario_post ''B'' (ex_store ''B''))) = ''A''
   \<and> keys (scenarios (snd (DeleteScenario_post ''B'' (ex_store ''B'')))) = [''A'', ''C'']
   \<and> scenario (snd (DeleteScenario_post ''A'' (ex_store ''A''))) = ''B''
   \<and> scenario (snd (DeleteScenario_post ''A'' ex_single)) = []
   \<and> keys (scenarios (snd (DeleteScenario_post ''A'' ex_single))) = []"
proof -
  have cb: "scenario (ex_store ''B'') = ''B''" and ca: "scenario (ex_store ''A'') = ''A''"
    and cs: "scenario ex_single = ''A''" and ks: "keys (scenarios ex_single) = [''A'']"
    by (simp_all add: ex_store_def ex_single_def keys_def)
  have b: "DeleteScenario_post (scenario (ex_store ''B'')) (ex_store ''B'') =
      (fst (DeleteScenario_post ''B'' (ex_store ''B'')), snd (DeleteScenario_post ''B'' (ex_store ''B'')))"
    by (simp add: cb)
  have a: "DeleteScenario_post (scenario (ex_store ''A'')) (ex_store ''A'') =
      (fst (DeleteScenario_post ''A'' (ex_store ''A'')), snd (DeleteScenario_post ''A'' (ex_store ''A'')))"
    by (simp add: ca)
  have s: "DeleteScenario_post (scenario ex_single) ex_single =
      (fst (DeleteScenario_post ''A'' ex_single), snd (DeleteScenario_post ''A'' ex_single))"
    by (simp add: cs)
  have db: "distinct (keys (scenarios (ex_store ''B'')))" and da: "distinct (keys (scenarios (ex_store ''A'')))"
    and ds: "distinct (keys (scenarios ex_single))"
    by (simp_all add: ex_store_keys ks)
  have mb: "scenario (ex_store ''B'') \<in> set (keys (scenarios (ex_store ''B'')))"
    and ma: "scenario (ex_store ''A'') \<in> set (keys (scenarios (ex_store ''A'')))"
    and ms: "scenario ex_single \<in> set (keys (scenarios ex_single))"
    by (simp_all add: ex_store_keys ks cb ca cs)
  note tb = DeleteScenario_post_current [OF db mb b]
  note ta = DeleteScenario_post_current [OF da ma a]
  note ts = DeleteScenario_post_current [OF ds ms s]
  have 1: "fst (DeleteScenario_post ''B'' (ex_store ''B'')) = None" using tb by blast
  have "keys (scenarios (ex_store ''B'')) = [] @ ''A'' # scenario (ex_store ''B'') # [''C'']"
    by (simp add: ex_store_keys cb)
  with tb have 2: "scenario (snd (DeleteScenario_post ''B'' (ex_store ''B''))) = ''A''" by blast
  have 3: "keys (scenarios (snd (DeleteScenario_post ''B'' (ex_store ''B'')))) = [''A'', ''C'']"
    using tb by (simp add: ex_store_keys cb)
  have "keys (scenarios (ex_store ''A'')) = scenario (ex_store ''A'') # ''B'' # [''C'']"
    by (simp add: ex_store_keys ca)
  with ta have 4: "scenario (snd (DeleteScenario_post ''A'' (ex_store ''A''))) = ''B''" by blast
  have 5: "keys (scenarios (snd (DeleteScenario_post ''A'' ex_single))) = []"
    using ts by (simp add: ks cs)
  with ts have 6: "scenario (snd (DeleteScenario_post ''A'' ex_single)) = []" by blast
  show ?thesis using db mb 1 2 3 4 5 6 by blast
qed

subsection \<open>The projection of a flow\<close>

lemma map_of_pop_in_other: "k' \<noteq> conn \<Longrightarrow> map_of (pop_in conn k f) k' = map_of f k'"
  by (simp add: pop_in_def update_conv' split: option.splits pyval.splits)

lemma content_length_hash_empty:
  "rc = None \<or> rc = Some [] \<Longrightarrow> content_length_hash ext rc = (PyNone, PyNone)"
  by (auto simp: content_length_hash_def)

lemma request_json_empty:
  "raw_content r = None \<or> raw_content r = Some [] \<Longrightarrow>
   \<exists>d. request_json ext r = PyDict d \<and> map_of d ''contentLength'' = Some PyNone
        \<and> map_of d ''contentHash'' = Some PyNone"
  by (auto simp: request_json_def content_length_hash_def)

lemma response_json_empty:
  "raw_content r = None \<or> raw_content r = Some [] \<Longrightarrow>
   \<exists>d. response_json ext r = PyDict d \<and> map_of d ''contentLength'' = Some PyNone
        \<and> map_of d ''contentHash'' = Some PyNone"
  by (auto simp: response_json_def content_length_hash_def)

lemma rest_request:
  "is_http flow \<Longrightarrow> request flow = Some r \<Longrightarrow>
   map_of (flow_to_json_rest ext flow f0) ''request'' = Some (request_json ext r)"
  by (simp add: flow_to_json_rest_def Let_def map_of_pop_in_other update_conv' split: option.splits)

lemma rest_response:
  "is_http flow \<Longrightarrow> response flow = Some r \<Longrightarrow>
   map_of (flow_to_json_rest ext flow f0) ''response'' = Some (response_json ext r)"
  by (simp add: flow_to_json_rest_def Let_def map_of_pop_in_other update_conv' split: option.splits)

text \<open>
  Claim C10. In the projection of an HTTP flow whose request (or response) body is absent
  or empty, \<^verbatim>\<open>contentLength\<close> and \<^verbatim>\<open>contentHash\<close> of the request (or response) are both
  \<^verbatim>\<open>None\<close>: an empty body is projected exactly as a missing one.
\<close>

theorem flow_to_json_empty_body:
  assumes "flow_to_json ext flow = Inr f" and "is_http flow"
  shows "(\<forall>r. request flow = Some r \<and> (raw_content r = None \<or> raw_content r = Some []) \<longrightarrow>
            (\<exists>d. map_of f ''request'' = Some (PyDict d)
                \<and> map_of d ''contentLength'' = Some PyNone
                \<and> map_of d ''contentHash'' = Some PyNone))
       \<and> (\<forall>r. response flow = Some r \<and> (raw_content r = None \<or> raw_content r = Some []) \<longrightarrow>
            (\<exists>d. map_of f ''response'' = Some (PyDict d)
                \<and> map_of d ''contentLength'' = Some PyNone
                \<and> map_of d ''contentHash'' = Some PyNone))"
proof -
  from assms(1) obtain f0 where f: "f = flow_to_json_rest ext flow f0"
    by (auto simp: flow_to_json_def split: sum.splits)
  have rq: "\<exists>d. map_of f ''request'' = Some (PyDict d)
                \<and> map_of d ''contentLength'' = Some PyNone
                \<and> map_of d ''contentHash'' = Some PyNone"
    if "request flow = Some r" and "raw_content r = None \<or> raw_content r = Some []" for r
    using request_json_empty [OF that(2), of ext] rest_request [OF assms(2) that(1), of ext f0]
    by (auto simp: f)
  have rs: "\<exists>d. map_of f ''response'' = Some (PyDict d)
                \<and> map_of d ''contentLength'' = Some PyNone
                \<and> map_of d ''contentHash'' = Some PyNone"
    if "response flow = Some r" and "raw_content r = None \<or> raw_content r = Some []" for r
    using response_json_empty [OF that(2), of ext] rest_response [OF assms(2) that(1), of ext f0]
    by (auto simp: f)
  show ?thesis using rq rs by blast
qed

lemma ex_flow_to_json:
  "flow_to_json ex_ext ex_flow = Inr (flow_to_json_rest ex_ext ex_flow (flow_to_json_init ex_flow))"
  by (simp add: flow_to_json_def flow_to_json_init_def ex_flow_def ex_conn_def getitem_def)

theorem flow_to_json_empty_body_witness:
  "is_http ex_flow
   \<and> request ex_flow = Some ex_request \<and> raw_content ex_request = Some []
   \<and> response ex_flow = Some ex_response \<and> raw_content ex_response = None
   \<and> (\<exists>f. flow_to_json ex_ext ex_flow = Inr f
        \<and> (\<exists>d. map_of f ''request'' = Some (PyDict d)
                \<and> map_of d ''contentLength'' = Some PyNone
                \<and> map_of d ''contentHash'' = Some PyNone)
        \<and> (\<exists>d. map_of f ''response'' = Some (PyDict d)
                \<and> map_of d ''contentLength'' = Some PyNone
                \<and> map_of d ''contentHash'' = Some PyNone))"
proof -
  have h: "is_http ex_flow" by (simp add: ex_flow_def)
  have rq: "request ex_flow = Some ex_request" "raw_content ex_request = Some []"
    by (simp_all add: ex_flow_def ex_request_def)
  have rs: "response ex_flow = Some ex_response" "raw_content ex_response = None"
    by (simp_all add: ex_flow_def ex_response_def)
  from flow_to_json_empty_body [OF ex_flow_to_json h] rq rs
  show ?thesis using h ex_flow_to_json by auto
qed

subsection \<open>Renaming the current scenario\<close>

lemma keys_delete_update:
  "name \<noteq> k \<Longrightarrow> name \<in> set (keys (AList.delete k (AList.update name v d)))"
  by (simp add: keys_delete keys_update)

lemma CopyScenario_post_result:
  assumes "map_of (scenarios st) (scenario st) = Some entry" and "name \<noteq> scenario st"
  shows "CopyScenario_post name st =
    (None, st\<lparr>scenarios := AList.delete (scenario st) (AList.update name entry (scenarios st)),
              scenario := name\<rparr>)"
  using assms
  by (simp add: CopyScenario_post_def getitem_def delitem_def Let_def update_conv'
      setScen_def keys_delete_update)

text \<open>
  Claim C3, as amended. When the current scenario exists and the new name differs from it,
  \<^verbatim>\<open>CopyScenario.post\<close> raises nothing; afterwards the old name is no longer a key (a
  lookup raises \<^verbatim>\<open>KeyError\<close>), the new name maps to exactly the entry (flow list and
  RuleSet mapping) the old name had, the new name is current, and every other entry is
  unchanged. An entry already stored under the new name is overwritten.
\<close>

theorem CopyScenario_post_moves:
  assumes "map_of (scenarios st) (scenario st) = Some entry"
    and "name \<noteq> scenario st"
    and "CopyScenario_post name st = (r, st')"
  shows "r = None
       \<and> scenario st \<notin> set (keys (scenarios st'))
       \<and> getitem (scenarios st') (scenario st) = Inl KeyError
       \<and> map_of (scenarios st') name = Some entry
       \<and> scenario st' = name
       \<and> (\<forall>k. k \<noteq> name \<and> k \<noteq> scenario st \<longrightarrow> map_of (scenarios st') k = map_of (scenarios st) k)"
proof -
  from CopyScenario_post_result [OF assms(1,2)] assms(3)
  have r: "r = None"
    and s: "scenarios st' = AList.delete (scenario st) (AList.update name entry (scenarios st))"
    and c: "scenario st' = name"
    by auto
  have 1: "scenario st \<notin> set (keys (scenarios st'))" by (simp add: s keys_delete)
  then have 2: "getitem (scenarios st') (scenario st) = Inl KeyError"
    using map_of_keys [of "scenarios st'" "scenario st"] by (simp add: getitem_def)
  have 3: "map_of (scenarios st') name = Some entry"
    using assms(2) by (simp add: s delete_conv' update_conv')
  have 4: "map_of (scenarios st') k = map_of (scenarios st) k" if "k \<noteq> name \<and> k \<noteq> scenario st" for k
    using that by (simp add: s delete_conv' update_conv')
  show ?thesis using r 1 2 3 c 4 by blast
qed

lemma ex_single_copy:
  "CopyScenario_post ''A'' ex_single = (Some NotFoundError, ex_single\<lparr>scenarios := []\<rparr>)"
  by (simp add: CopyScenario_post_def ex_single_def getitem_def delitem_def Let_def
      setScen_def keys_def AList.delete_eq)

text \<open>
  Claim C3 as stated fails when the new name is the current one: the entry is stored
  under the name and then deleted, so the name maps to nothing afterwards.
\<close>

theorem CopyScenario_post_same_name_counterexample:
  "scenario ex_single = ''A''
   \<and> map_of (scenarios ex_single) ''A'' = Some ([ex_flow], [(''f1'', ex_rules)])
   \<and> scenarios (snd (CopyScenario_post ''A'' ex_single)) = []
   \<and> map_of (scenarios (snd (CopyScenario_post ''A'' ex_single))) ''A''
       \<noteq> Some ([ex_flow], [(''f1'', ex_rules)])"
  by (simp add: ex_single_copy) (simp add: ex_single_def)

theorem CopyScenario_post_moves_witness:
  "map_of (scenarios (ex_store ''A'')) (scenario (ex_store ''A'')) = Some ([ex_flow], [(''f1'', ex_rules)])
   \<and> ''D'' \<noteq> scenario (ex_store ''A'')
   \<and> fst (CopyScenario_post ''D'' (ex_store ''A'')) = None
   \<and> getitem (scenarios (snd (CopyScenario_post ''D'' (ex_store ''A'')))) ''A'' = Inl KeyError
   \<and> map_of (scenarios (snd (CopyScenario_post ''D'' (ex_store ''A'')))) ''D''
        = Some ([ex_flow], [(''f1'', ex_rules)])
   \<and> scenario (snd (CopyScenario_post ''D'' (ex_store ''A''))) = ''D''"
proof -
  have c: "scenario (ex_store ''A'') = ''A''" by (simp add: ex_store_def)
  have m: "map_of (scenarios (ex_store ''A'')) (scenario (ex_store ''A'')) = Some ([ex_flow], [(''f1'', ex_rules)])"
    by (simp add: ex_store_def)
  have n: "''D'' \<noteq> scenario (ex_store ''A'')" by (simp add: c)
  have p: "CopyScenario_post ''D'' (ex_store ''A'') =
      (fst (CopyScenario_post ''D'' (ex_store ''A'')), snd (CopyScenario_post ''D'' (ex_store ''A'')))"
    by simp
  from CopyScenario_post_moves [OF m n p] show ?thesis using m n by (simp add: c)
qed

subsection \<open>The invariant\<close>

text \<open>
  Claim C5. The invariant (the current name is empty or a key) holds before, and fails
  after, \<^verbatim>\<open>CopyScenario.post\<close> with the current scenario's own name: the only scenario is
  deleted and the current name still names it.
\<close>

theorem CopyScenario_post_breaks_store_inv:
  "store_inv ex_single
   \<and> CopyScenario_post ''A'' ex_single = (Some NotFoundError, ex_single\<lparr>scenarios := []\<rparr>)
   \<and> \<not> store_inv (snd (CopyScenario_post ''A'' ex_single))"
  by (simp add: ex_single_copy) (simp add: store_inv_def ex_single_def keys_def)

subsection \<open>Import\<close>

lemma fold_newMatcher:
  "fold (\<lambda>(i, m) s. newMatcher i m s) ms st = st\<lparr>matchers := fold (\<lambda>(i, m) d. AList.update i m d) ms (matchers st)\<rparr>"
  by (induction ms arbitrary: st) (auto simp: newMatcher_def)


lemma import_prepare_frame:
  "matchers (snd (import_prepare st)) = matchers st
   \<and> set (flows (snd (import_prepare st))) \<subseteq> set (flows st)
   \<and> scenario (snd (import_prepare st)) = scenario st"
  by (auto simp: import_prepare_def Let_def switchLearning_def view_remove_def getitem_def
      split: option.splits prod.splits if_splits)

lemma import_prepare_ok:
  "store_inv st \<Longrightarrow> fst (import_prepare st) = None"
  using map_of_keys [of "scenarios st" "scenario st"]
  by (auto simp: import_prepare_def Let_def switchLearning_def view_remove_def getitem_def store_inv_def
      split: option.splits prod.splits)

lemma import_prepare_errors:
  "fst (import_prepare st) = None \<or> fst (import_prepare st) = Some KeyError"
  by (auto simp: import_prepare_def Let_def getitem_def split: option.splits prod.splits)

lemma header_items_state:
  "snd (header_items eval_header line st) = snd (eval_header line st)"
  by (simp add: header_items_def split: prod.splits sum.splits)

lemma DumpFlows_post_prepare_fails:
  "fst (import_prepare st) \<noteq> None \<Longrightarrow>
   DumpFlows_post eval_header stream filecontents st = import_prepare st"
  by (cases "import_prepare st") (auto simp: DumpFlows_post_def)

lemma DumpFlows_post_header_fails:
  assumes "fst (import_prepare st) = None"
    and "header_items eval_header (fst (readline filecontents)) (snd (import_prepare st)) = (Inl e, st4)"
  shows "DumpFlows_post eval_header stream filecontents st = (Some e, st4)"
  using assms
  by (cases "import_prepare st") (auto simp: DumpFlows_post_def split: prod.splits)

lemma DumpFlows_post_header_ok:
  assumes "fst (import_prepare st) = None"
    and "header_items eval_header (fst (readline filecontents)) (snd (import_prepare st)) = (Inr ms, st4)"
  shows "snd (DumpFlows_post eval_header stream filecontents st) =
           st4\<lparr>matchers := fold (\<lambda>(i, m) d. AList.update i m d) ms (matchers st4)\<rparr>"
  using assms
  by (cases "import_prepare st")
     (auto simp: DumpFlows_post_def Let_def fold_newMatcher split: prod.splits)

lemma DumpFlows_post_after_header:
  assumes "fst (import_prepare st) = None"
  shows "learning (snd (DumpFlows_post eval_header stream filecontents st))
           = learning (snd (eval_header (fst (readline filecontents)) (snd (import_prepare st))))
       \<and> scenario (snd (DumpFlows_post eval_header stream filecontents st))
           = scenario (snd (eval_header (fst (readline filecontents)) (snd (import_prepare st))))
       \<and> scenarios (snd (DumpFlows_post eval_header stream filecontents st))
           = scenarios (snd (eval_header (fst (readline filecontents)) (snd (import_prepare st))))"
proof -
  let ?h = "header_items eval_header (fst (readline filecontents)) (snd (import_prepare st))"
  have s: "snd ?h = snd (eval_header (fst (readline filecontents)) (snd (import_prepare st)))"
    by (rule header_items_state)
  show ?thesis
  proof (cases "fst ?h")
    case (Inl e)
    then have "?h = (Inl e, snd ?h)" by (metis prod.collapse)
    from DumpFlows_post_header_fails [OF assms this] show ?thesis by (simp add: s)
  next
    case (Inr ms)
    then have "?h = (Inr ms, snd ?h)" by (metis prod.collapse)
    from DumpFlows_post_header_ok [OF assms this] show ?thesis by (simp add: s)
  qed
qed




text \<open>
  Claim C1, as amended. When the evaluation of the first line, or \<^verbatim>\<open>items\<close> on its value,
  raises, the import raises that same exception and stops there, with the state exactly
  as the evaluation left it: the handler has run neither its matcher loop nor its loop
  over the decoded flows. The one exception that can come before it is the \<^verbatim>\<open>KeyError\<close>
  of the lookup of the current scenario, which a store that satisfies the invariant does
  not raise. If the evaluation itself changed nothing, the view has gained no flow and the
  registered matchers are as before.
\<close>

theorem DumpFlows_post_header_raises:
  assumes "header_items eval_header (fst (readline filecontents)) (snd (import_prepare st)) = (Inl e, st4)"
    and "DumpFlows_post eval_header stream filecontents st = (r, st')"
  shows "(fst (import_prepare st) = None \<longrightarrow> r = Some e \<and> st' = st4)
       \<and> (fst (import_prepare st) \<noteq> None \<longrightarrow> r = Some KeyError \<and> st' = snd (import_prepare st))
       \<and> (store_inv st \<longrightarrow> fst (import_prepare st) = None)
       \<and> (st4 = snd (import_prepare st) \<longrightarrow>
            set (flows st') \<subseteq> set (flows st) \<and> matchers st' = matchers st)"
proof -
  have 1: "r = Some e \<and> st' = st4" if "fst (import_prepare st) = None"
    using DumpFlows_post_header_fails [OF that assms(1)] assms(2) by simp
  have 2: "r = Some KeyError \<and> st' = snd (import_prepare st)" if "fst (import_prepare st) \<noteq> None"
    using DumpFlows_post_prepare_fails [OF that, of eval_header stream filecontents] assms(2)
      import_prepare_errors [of st] that
    by (cases "import_prepare st") auto
  have 3: "set (flows st') \<subseteq> set (flows st) \<and> matchers st' = matchers st"
    if "st4 = snd (import_prepare st)"
  proof -
    have "st' = snd (import_prepare st)" using 1 2 that by blast
    then show ?thesis using import_prepare_frame [of st] by simp
  qed
  show ?thesis using 1 2 3 import_prepare_ok by blast
qed

text \<open>
  Claim C1 as stated fails: the header \<^verbatim>\<open>self.view.add([f2]) or nope\<close> is not a mapping
  and the import raises, but the exception is Python's \<^verbatim>\<open>NameError\<close>, and the flow
  \<open>f2\<close> has been added to the view by then.
\<close>

theorem DumpFlows_post_header_counterexample:
  "fst (header_items ex_eval_adds (fst (readline ''header'')) (snd (import_prepare (ex_store ''A''))))
     = Inl NameError
   \<and> fst (DumpFlows_post ex_eval_adds ex_stream ''header'' (ex_store ''A'')) = Some NameError
   \<and> fst (DumpFlows_post ex_eval_adds ex_stream ''header'' (ex_store ''A''))
       \<noteq> Some InvalidCaptureFormatError
   \<and> ex_flow2 \<notin> set (flows (ex_store ''A''))
   \<and> ex_flow2 \<in> set (flows (snd (DumpFlows_post ex_eval_adds ex_stream ''header'' (ex_store ''A''))))"
proof -
  have n: "ex_flow2 \<noteq> ex_flow"
  proof
    assume "ex_flow2 = ex_flow"
    then have "fid ex_flow2 = fid ex_flow" by simp
    then show False by (simp add: ex_flow2_def ex_flow_def)
  qed
  have a: "fst (import_prepare (ex_store ''A'')) = None"
    by (rule import_prepare_ok) (simp add: store_inv_def ex_store_def keys_def)
  have h: "header_items ex_eval_adds line s = (Inl NameError, s\<lparr>flows := flows s @ [ex_flow2]\<rparr>)"
    for line s
    by (simp add: header_items_def ex_eval_adds_def)
  have d: "DumpFlows_post ex_eval_adds ex_stream ''header'' (ex_store ''A'') =
      (Some NameError, (snd (import_prepare (ex_store ''A'')))\<lparr>flows :=
         flows (snd (import_prepare (ex_store ''A''))) @ [ex_flow2]\<rparr>)"
    by (rule DumpFlows_post_header_fails [OF a h])
  have 1: "fst (header_items ex_eval_adds (fst (readline ''header'')) (snd (import_prepare (ex_store ''A''))))
     = Inl NameError"
    by (simp only: h fst_conv)
  have 2: "fst (DumpFlows_post ex_eval_adds ex_stream ''header'' (ex_store ''A'')) = Some NameError"
    by (simp only: d fst_conv)
  then have 3: "fst (DumpFlows_post ex_eval_adds ex_stream ''header'' (ex_store ''A''))
       \<noteq> Some InvalidCaptureFormatError"
    by simp
  have 4: "ex_flow2 \<notin> set (flows (ex_store ''A''))" using n by (simp add: ex_store_def)
  have 5: "ex_flow2 \<in> set (flows (snd (DumpFlows_post ex_eval_adds ex_stream ''header'' (ex_store ''A''))))"
    by (simp add: d)
  show ?thesis using 1 2 3 4 5 by blast
qed

theorem DumpFlows_post_header_raises_witness:
  "header_items ex_eval_undefined (fst (readline ''nope'')) (snd (import_prepare (ex_store ''A'')))
     = (Inl NameError, snd (import_prepare (ex_store ''A'')))
   \<and> store_inv (ex_store ''A'')
   \<and> fst (import_prepare (ex_store ''A'')) = None
   \<and> fst (import_prepare (ex_store ''Z'')) \<noteq> None
   \<and> fst (DumpFlows_post ex_eval_undefined ex_stream ''nope'' (ex_store ''A'')) = Some NameError
   \<and> snd (DumpFlows_post ex_eval_undefined ex_stream ''nope'' (ex_store ''A''))
       = snd (import_prepare (ex_store ''A''))
   \<and> set (flows (snd (DumpFlows_post ex_eval_undefined ex_stream ''nope'' (ex_store ''A''))))
       \<subseteq> set (flows (ex_store ''A''))
   \<and> matchers (snd (DumpFlows_post ex_eval_undefined ex_stream ''nope'' (ex_store ''A'')))
       = matchers (ex_store ''A'')
   \<and> fst (DumpFlows_post ex_eval_undefined ex_stream ''nope'' (ex_store ''Z'')) = Some KeyError"
proof -
  let ?a = "ex_store ''A''" and ?z = "ex_store ''Z''"
  have ha: "header_items ex_eval_undefined (fst (readline ''nope'')) (snd (import_prepare ?a))
      = (Inl NameError, snd (import_prepare ?a))"
    and hz: "header_items ex_eval_undefined (fst (readline ''nope'')) (snd (import_prepare ?z))
      = (Inl NameError, snd (import_prepare ?z))"
    by (simp_all add: header_items_def ex_eval_undefined_def)
  have i: "store_inv ?a" by (simp add: store_inv_def ex_store_def keys_def)
  have z: "fst (import_prepare ?z) \<noteq> None"
    by (simp add: import_prepare_def ex_store_def getitem_def Let_def switchLearning_def)
  have pa: "DumpFlows_post ex_eval_undefined ex_stream ''nope'' ?a =
      (fst (DumpFlows_post ex_eval_undefined ex_stream ''nope'' ?a),
       snd (DumpFlows_post ex_eval_undefined ex_stream ''nope'' ?a))"
    and pz: "DumpFlows_post ex_eval_undefined ex_stream ''nope'' ?z =
      (fst (DumpFlows_post ex_eval_undefined ex_stream ''nope'' ?z),
       snd (DumpFlows_post ex_eval_undefined ex_stream ''nope'' ?z))"
    by simp_all
  note ta = DumpFlows_post_header_raises [OF ha pa]
  note tz = DumpFlows_post_header_raises [OF hz pz]
  have a: "fst (import_prepare ?a) = None" using ta i by blast
  have 1: "fst (DumpFlows_post ex_eval_undefined ex_stream ''nope'' ?a) = Some NameError"
    and 2: "snd (DumpFlows_post ex_eval_undefined ex_stream ''nope'' ?a) = snd (import_prepare ?a)"
    using ta a by blast+
  have 3: "set (flows (snd (DumpFlows_post ex_eval_undefined ex_stream ''nope'' ?a))) \<subseteq> set (flows ?a)"
    and 4: "matchers (snd (DumpFlows_post ex_eval_undefined ex_stream ''nope'' ?a)) = matchers ?a"
    using ta by blast+
  have 5: "fst (DumpFlows_post ex_eval_undefined ex_stream ''nope'' ?z) = Some KeyError"
    using tz z by blast
  show ?thesis using ha i a z 1 2 3 4 5 by blast
qed

subsection \<open>Listing\<close>

lemma listing_flags: "listing ext (st\<lparr>mock := m, learning := l\<rparr>) = listing ext st"
  by (simp add: listing_def split: sum.splits)

text \<open>
  Claim C7. When the listing of the flows completes, the mock flag and the learning flag
  are both false afterwards, whatever they were before, and nothing else of the state has
  changed. The listing returned is the one computed on the state before the flags are
  cleared, and it does not depend on the flags.
\<close>

theorem Flows_get_clears_flags:
  assumes "Flows_get ext st = (Inr li, st')"
  shows "\<not> mock st' \<and> \<not> learning st'
       \<and> st' = st\<lparr>mock := False, learning := False\<rparr>
       \<and> listing ext st = Inr li
       \<and> listing ext (st\<lparr>mock := m, learning := l\<rparr>) = listing ext st"
proof -
  from assms have li: "listing ext st = Inr li"
    by (auto simp: Flows_get_def Let_def split: sum.splits)
  with assms have "st' = st\<lparr>mock := False, learning := False\<rparr>"
    by (cases "mock st"; cases "learning st")
       (auto simp: Flows_get_def Let_def switchMock_def switchLearning_def)
  then show ?thesis using li listing_flags by simp
qed

lemma ex_mark_scenario:
  "mark_scenario (scenarios (ex_store c)) ex_flow dic = AList.update ''scenario'' (PyStr ''A'') dic"
  by (simp add: mark_scenario_def ex_store_def)

lemma ex_flow_rules:
  "flow_rules (scenarios (ex_store c)) ex_flow (AList.update ''scenario'' (PyStr ''A'') dic)
     = Inr (toDict ex_rules)"
proof -
  have "fid ex_flow = ''f1''" by (simp add: ex_flow_def)
  then show ?thesis by (simp add: flow_rules_def update_conv' getitem_def ex_store_def)
qed

lemma ex_listing:
  "listing ex_ext ((ex_store ''A'')\<lparr>learning := True\<rparr>) =
     Inr [PyList [PyDict (AList.update ''scenario'' (PyStr ''A'')
                    (flow_to_json_rest ex_ext ex_flow (flow_to_json_init ex_flow))),
                  toDict ex_rules],
          PyStr ''A'']"
proof -
  have f: "flows (ex_store ''A'') = [ex_flow]" and c: "scenario (ex_store ''A'') = ''A''"
    by (simp_all add: ex_store_def)
  show ?thesis
    by (simp add: listing_def f c ex_flow_to_json ex_mark_scenario ex_flow_rules)
qed

theorem Flows_get_clears_flags_witness:
  "mock ((ex_store ''A'')\<lparr>learning := True\<rparr>) \<and> learning ((ex_store ''A'')\<lparr>learning := True\<rparr>)
   \<and> (\<exists>li. fst (Flows_get ex_ext ((ex_store ''A'')\<lparr>learning := True\<rparr>)) = Inr li)
   \<and> \<not> mock (snd (Flows_get ex_ext ((ex_store ''A'')\<lparr>learning := True\<rparr>)))
   \<and> \<not> learning (snd (Flows_get ex_ext ((ex_store ''A'')\<lparr>learning := True\<rparr>)))"
proof -
  let ?st = "(ex_store ''A'')\<lparr>learning := True\<rparr>"
  obtain li where li: "listing ex_ext ?st = Inr li" using ex_listing by blast
  have p: "Flows_get ex_ext ?st = (Inr li, snd (Flows_get ex_ext ?st))"
    using li by (simp add: Flows_get_def Let_def)
  have m: "mock ?st" "learning ?st" by (simp_all add: ex_store_def)
  from Flows_get_clears_flags [OF p] show ?thesis using m p by (metis fst_conv)
qed

subsection \<open>Reordering rules\<close>

lemma with_rules_error:
  "getitem (scenarios st) (scenario st) = Inr (fs, rs) \<Longrightarrow> getitem rs flow_id = Inr r \<Longrightarrow>
   op r = Inl e \<Longrightarrow> with_rules flow_id op st = (Some e, st)"
  by (simp add: with_rules_def)

lemma switchRules_out_of_range:
  "\<not> (in_range (rules_of r label) i \<and> in_range (rules_of r label) j) \<Longrightarrow>
   switchRules label i j r = Inl IndexOutOfRangeError"
  by (auto simp: switchRules_def Let_def)

text \<open>
  Claim C6. For a rule list of length \<open>n\<close>, moving the rule at index 0 up (a swap with
  index -1) and moving the rule at index \<open>n - 1\<close> or beyond down or up fail with
  \<open>IndexOutOfRangeError\<close> and leave the state as it was; \<open>switchRules\<close> rejects every
  pair with an index out of range, so none is clamped or wrapped around.
\<close>

theorem rule_reorder_out_of_range:
  assumes "getitem (scenarios st) (scenario st) = Inr (fs, rs)" and "getitem rs flow_id = Inr r"
  shows "RuleUp_post flow_id label 0 st = (Some IndexOutOfRangeError, st)
       \<and> (\<forall>i. length (rules_of r label) \<le> Suc i \<longrightarrow>
             RuleDown_post flow_id label i st = (Some IndexOutOfRangeError, st))
       \<and> (\<forall>i. length (rules_of r label) \<le> i \<longrightarrow>
             RuleUp_post flow_id label i st = (Some IndexOutOfRangeError, st))
       \<and> (\<forall>i j. \<not> (in_range (rules_of r label) i \<and> in_range (rules_of r label) j) \<longrightarrow>
             switchRules label i j r = Inl IndexOutOfRangeError)"
proof -
  have up0: "RuleUp_post flow_id label 0 st = (Some IndexOutOfRangeError, st)"
    unfolding RuleUp_post_def
    by (rule with_rules_error [OF assms]) (simp add: switchRules_out_of_range in_range_def)
  have down: "RuleDown_post flow_id label i st = (Some IndexOutOfRangeError, st)"
    if "length (rules_of r label) \<le> Suc i" for i
    unfolding RuleDown_post_def
    by (rule with_rules_error [OF assms], rule switchRules_out_of_range)
       (use that in \<open>simp add: in_range_def\<close>)
  have up: "RuleUp_post flow_id label i st = (Some IndexOutOfRangeError, st)"
    if "length (rules_of r label) \<le> i" for i
    unfolding RuleUp_post_def
    by (rule with_rules_error [OF assms], rule switchRules_out_of_range)
       (use that in \<open>simp add: in_range_def\<close>)
  show ?thesis using up0 down up switchRules_out_of_range by blast
qed

theorem rule_reorder_out_of_range_witness:
  "getitem (scenarios (ex_store ''A'')) (scenario (ex_store ''A'')) = Inr ([ex_flow], [(''f1'', ex_rules)])
   \<and> getitem [(''f1'', ex_rules)] ''f1'' = Inr ex_rules
   \<and> length (rules_of ex_rules ''Headers'') = 2
   \<and> RuleUp_post ''f1'' ''Headers'' 0 (ex_store ''A'') = (Some IndexOutOfRangeError, ex_store ''A'')
   \<and> RuleDown_post ''f1'' ''Headers'' 1 (ex_store ''A'') = (Some IndexOutOfRangeError, ex_store ''A'')
   \<and> switchRules ''Headers'' 0 (- 1) ex_rules = Inl IndexOutOfRangeError
   \<and> switchRules ''Headers'' 1 2 ex_rules = Inl IndexOutOfRangeError"
proof -
  have a: "getitem (scenarios (ex_store ''A'')) (scenario (ex_store ''A'')) = Inr ([ex_flow], [(''f1'', ex_rules)])"
    by (simp add: ex_store_def getitem_def)
  have b: "getitem [(''f1'', ex_rules)] ''f1'' = Inr ex_rules" by (simp add: getitem_def)
  have n: "length (rules_of ex_rules ''Headers'') = 2" by (simp add: rules_of_def ex_rules_def)
  note t = rule_reorder_out_of_range [OF a b, of "''Headers''"]
  have 1: "RuleUp_post ''f1'' ''Headers'' 0 (ex_store ''A'') = (Some IndexOutOfRangeError, ex_store ''A'')"
    using t by blast
  have "length (rules_of ex_rules ''Headers'') \<le> Suc 1" using n by simp
  with t have 2: "RuleDown_post ''f1'' ''Headers'' 1 (ex_store ''A'') = (Some IndexOutOfRangeError, ex_store ''A'')"
    by blast
  have "\<not> (in_range (rules_of ex_rules ''Headers'') 0 \<and> in_range (rules_of ex_rules ''Headers'') (- 1))"
    by (simp add: in_range_def)
  with t have 3: "switchRules ''Headers'' 0 (- 1) ex_rules = Inl IndexOutOfRangeError" by blast
  have "\<not> (in_range (rules_of ex_rules ''Headers'') 1 \<and> in_range (rules_of ex_rules ''Headers'') 2)"
    using n by (simp add: in_range_def)
  with t have 4: "switchRules ''Headers'' 1 2 ex_rules = Inl IndexOutOfRangeError" by blast
  show ?thesis using a b n 1 2 3 4 by blast
qed

subsection \<open>Export\<close>

lemma fold_write_entry:
  "fold (write_entry str_of) rs bio = bio @ concat (map (entry_text str_of) rs)"
  by (induction rs arbitrary: bio) (auto simp: write_entry_def entry_text_def)

lemma fold_add: "fold (\<lambda>f bio. bio @ add f) fs bio = bio @ concat (map add fs)"
  by (induction fs arbitrary: bio) auto

text \<open>
  Claim C2, as amended. The export takes no name: it dumps the current scenario, and raises
  \<^verbatim>\<open>KeyError\<close> when the current name is not a key. Otherwise the bytes are an opening
  brace, one entry \<^verbatim>\<open>'id': str(RuleSet), \<close> for each item of the scenario's RuleSet mapping
  in the mapping's order, a closing brace, a blank and a newline, and then one record per
  flow of the scenario's flow list in list order. The registered matchers play no part.
\<close>

theorem DumpFlows_get_bytes:
  "DumpFlows_get str_of add st =
     (case map_of (scenarios st) (scenario st) of
        None \<Rightarrow> Inl KeyError
      | Some (fs, rs) \<Rightarrow>
          Inr (''{'' @ concat (map (entry_text str_of) rs) @ ''} '' @ newline
               @ concat (map add fs)))
   \<and> DumpFlows_get str_of add (st\<lparr>matchers := ms\<rparr>) = DumpFlows_get str_of add st"
  by (simp add: DumpFlows_get_def getitem_def Let_def fold_write_entry fold_add
      split: option.splits)

text \<open>
  Claim C2 as stated fails: with a matcher registered for the scenario's flow, the header
  holds the text of the flow's RuleSet and not that of its matcher.
\<close>

theorem DumpFlows_get_header_counterexample:
  "DumpFlows_get (\<lambda>r. ''R'') fid ex_registered
     = Inr (''{'' @ apostrophe @ ''f1'' @ apostrophe @ '': R, } '' @ newline @ ''f1'')
   \<and> spec_dump (\<lambda>m. ''M'') fid ex_registered
     = Inr (''{'' @ apostrophe @ ''f1'' @ apostrophe @ '': M, } '' @ newline @ ''f1'')
   \<and> DumpFlows_get (\<lambda>r. ''R'') fid ex_registered \<noteq> spec_dump (\<lambda>m. ''M'') fid ex_registered"
  by (simp add: DumpFlows_get_def spec_dump_def ex_registered_def ex_single_def getitem_def
      write_entry_def ex_flow_def)

subsection \<open>Updating a flow\<close>

text \<open>
  Claim C8. The update \<^verbatim>\<open>{"request": {"method": "POST", "port": null}}\<close> sets the method
  and then raises \<^verbatim>\<open>TypeError\<close> in \<^verbatim>\<open>int(v)\<close>, which \<^verbatim>\<open>except APIError\<close> does not catch:
  the flow is left with the new method, whatever the built-ins are.
\<close>

theorem FlowHandler_put_partial_update:
  "FlowHandler_put bi (Inr ex_put) ex_flow =
     (Some TypeError,
      ex_flow\<lparr>request := Some (ex_request\<lparr>http_method := ''POST''\<rparr>),
              backup_state := Some (get_state ex_flow)\<rparr>)
   \<and> get_state (snd (FlowHandler_put bi (Inr ex_put) ex_flow)) \<noteq> get_state ex_flow
   \<and> map_option http_method (request ex_flow) = Some ''GET''
   \<and> map_option http_method (request (snd (FlowHandler_put bi (Inr ex_put) ex_flow))) = Some ''POST''"
proof -
  have r: "request ex_flow = Some ex_request" and h: "is_http ex_flow"
    and b: "backup_state ex_flow = None"
    by (simp_all add: ex_flow_def)
  have u: "update_request bi [(''method'', PyStr ''POST''), (''port'', PyNone)] (Some ex_request)
      = (Some TypeError, Some (ex_request\<lparr>http_method := ''POST''\<rparr>))"
    by (simp add: update_request_field_def py_str_def py_int_def)
  have bk: "backup ex_flow = ex_flow\<lparr>backup_state := Some (get_state ex_flow)\<rparr>"
    by (simp add: backup_def b)
  have pl: "put_loop bi [(''request'', PyDict [(''method'', PyStr ''POST''), (''port'', PyNone)])]
              (backup ex_flow)
      = (Some TypeError, (backup ex_flow)\<lparr>request := Some (ex_request\<lparr>http_method := ''POST''\<rparr>)\<rparr>)"
    by (simp add: bk r h u del: update_request.simps)
  have p: "FlowHandler_put bi (Inr ex_put) ex_flow =
     (Some TypeError,
      ex_flow\<lparr>request := Some (ex_request\<lparr>http_method := ''POST''\<rparr>),
              backup_state := Some (get_state ex_flow)\<rparr>)"
    by (simp add: FlowHandler_put_def ex_put_def Let_def pl del: put_loop.simps) (simp add: bk)
  have m: "http_method ex_request = ''GET''" by (simp add: ex_request_def)
  have "request (get_state (snd (FlowHandler_put bi (Inr ex_put) ex_flow)))
      \<noteq> request (get_state ex_flow)"
    by (simp add: p get_state_def flow_state.truncate_def r)
       (simp add: ex_request_def)
  then have "get_state (snd (FlowHandler_put bi (Inr ex_put) ex_flow)) \<noteq> get_state ex_flow"
    by auto
  then show ?thesis using p r m by simp
qed

subsection \<open>Operations that keep the invariant\<close>

text \<open>
  Every other operation keeps the invariant, and so does \<^verbatim>\<open>CopyScenario.post\<close> when the
  new name differs from the current one. For the import this is said of the handler's own
  statements: the header's evaluation is assumed to leave a store that satisfies it.
\<close>

lemma store_inv_Scenario_post: "store_inv (snd (Scenario_post name st))"
  by (auto simp: Scenario_post_def addScen_def setScen_def store_inv_def keys_update)

lemma store_inv_DeleteScenario_post:
  assumes "distinct (keys (scenarios st))" and "store_inv st"
  shows "store_inv (snd (DeleteScenario_post name st))"
proof (cases "index_of (keys (scenarios st)) name")
  case None
  then show ?thesis using assms(2) by (simp add: DeleteScenario_post_def)
next
  case (Some i)
  from index_of_Some [OF Some] have il: "i < length (keys (scenarios st))"
    and ix: "keys (scenarios st) ! i = name" by auto
  from DeleteScenario_post_result [OF Some]
  have s: "scenario (snd (DeleteScenario_post name st)) = neighbour (keys (scenarios st)) i"
    and k: "keys (scenarios (snd (DeleteScenario_post name st))) = removeAll name (keys (scenarios st))"
    by (auto simp: keys_delete)
  show ?thesis
  proof (cases "length (keys (scenarios st)) = 1")
    case True
    then show ?thesis by (simp add: store_inv_def s neighbour_def)
  next
    case False
    from neighbour_in [OF assms(1) il False] show ?thesis
      by (simp add: store_inv_def s k ix)
  qed
qed

lemma store_inv_CopyScenario_post:
  assumes "store_inv st" and "name \<noteq> scenario st"
  shows "store_inv (snd (CopyScenario_post name st))"
proof (cases "map_of (scenarios st) (scenario st)")
  case None
  then show ?thesis using assms(1) by (simp add: CopyScenario_post_def getitem_def)
next
  case (Some entry)
  from CopyScenario_post_result [OF Some assms(2)] show ?thesis
    using assms(2) by (simp add: store_inv_def keys_delete_update)
qed

lemma store_inv_with_rules: "store_inv st \<Longrightarrow> store_inv (snd (with_rules flow_id op st))"
  by (auto simp: with_rules_def store_inv_def getitem_def keys_update
      split: option.splits sum.splits prod.splits)

lemma store_inv_rule_handlers:
  assumes "store_inv st"
  shows "store_inv (snd (RuleUp_post flow_id label i st))"
    and "store_inv (snd (RuleDown_post flow_id label i st))"
    and "store_inv (snd (RuleDelete_post flow_id label i st))"
    and "store_inv (snd (RuleHandler_put flow_id json st))"
proof -
  show "store_inv (snd (RuleUp_post flow_id label i st))"
    "store_inv (snd (RuleDown_post flow_id label i st))"
    "store_inv (snd (RuleDelete_post flow_id label i st))"
    using assms by (simp_all add: RuleUp_post_def RuleDown_post_def RuleDelete_post_def store_inv_with_rules)
  show "store_inv (snd (RuleHandler_put flow_id json st))"
    using assms store_inv_with_rules [OF assms]
    by (auto simp: RuleHandler_put_def Let_def split: sum.splits pyval.splits)
qed

lemma store_inv_import_prepare: "store_inv st \<Longrightarrow> store_inv (snd (import_prepare st))"
  by (auto simp: import_prepare_def Let_def store_inv_def switchLearning_def view_remove_def
      getitem_def keys_update split: option.splits prod.splits)

lemma store_inv_DumpFlows_post:
  assumes "store_inv st"
    and "store_inv (snd (eval_header (fst (readline filecontents)) (snd (import_prepare st))))"
  shows "store_inv (snd (DumpFlows_post eval_header stream filecontents st))"
proof (cases "fst (import_prepare st) = None")
  case True
  from DumpFlows_post_after_header [OF True, of eval_header stream filecontents] assms(2)
  show ?thesis by (simp add: store_inv_def)
next
  case False
  from DumpFlows_post_prepare_fails [OF False] store_inv_import_prepare [OF assms(1)]
  show ?thesis by simp
qed

lemma store_inv_flags:
  assumes "store_inv st"
  shows "store_inv (snd (Flows_get ext st))"
    and "store_inv (snd (SwitchBouchonMode_post st))"
    and "store_inv (snd (SwitchLearning_post st))"
  using assms
  by (auto simp: Flows_get_def Let_def SwitchBouchonMode_post_def SwitchLearning_post_def
      switchMock_def switchLearning_def store_inv_def split: sum.splits)

subsection \<open>The rollback that the update does perform\<close>

text \<open>
  When the update raises an \<open>APIError\<close> on a flow that had no saved state, the flow is
  left exactly as it was before the request.
\<close>

lemma put_loop_backup_state: "put_loop bi items f = (r, f') \<Longrightarrow> backup_state f' = backup_state f"
proof (induction bi items f arbitrary: r f' rule: put_loop.induct)
  case (1 bi flow)
  then show ?case by simp
next
  case (2 bi a b items flow)
  show ?case
  proof (cases "a = ''request'' \<and> is_http flow")
    case True
    then show ?thesis using 2(1) 2(3)
      by (cases b; cases "update_request bi (case b of PyDict kvs \<Rightarrow> kvs | _ \<Rightarrow> []) (request flow)")
         (auto split: option.splits)
  next
    case nr: False
    show ?thesis
    proof (cases "a = ''response'' \<and> is_http flow")
      case True
      then show ?thesis using nr 2(2) 2(3)
        by (cases b; cases "update_response bi (case b of PyDict kvs \<Rightarrow> kvs | _ \<Rightarrow> []) (response flow)")
           (auto split: option.splits)
    next
      case False
      then show ?thesis using nr 2(3) by auto
    qed
  qed
qed

lemma revert_backup:
  "backup_state f = None \<Longrightarrow> backup_state f' = Some (get_state f) \<Longrightarrow> revert f' = f"
  by (cases f) (simp add: revert_def get_state_def flow_state.defs flow.defs)

lemma FlowHandler_put_APIError_reverts:
  assumes "backup_state f = None" and "FlowHandler_put bi json f = (Some (APIError c m), f')"
  shows "f' = f"
proof -
  have bk: "backup_state (backup f) = Some (get_state f)" using assms(1) by (simp add: backup_def)
  obtain r0 f0 where inner:
    "(case json of Inl e \<Rightarrow> (Some e, backup f)
      | Inr (PyDict items) \<Rightarrow> put_loop bi items (backup f)
      | Inr _ \<Rightarrow> (Some AttributeError, backup f)) = (r0, f0)"
    by (metis surj_pair)
  have b0: "backup_state f0 = Some (get_state f)"
    using inner bk put_loop_backup_state
    by (auto split: sum.splits pyval.splits)
  have "f' = revert f0"
    using assms(2) inner
    by (cases r0) (auto simp: FlowHandler_put_def Let_def split: exn.splits)
  then show ?thesis using revert_backup [OF assms(1) b0] by simp
qed

end
